theory Spec2Isabelle
  imports Main "HOL-Library.Word"
begin

section \<open>The POSIX message-queue backend of libipc (msgq\_posix.c)\<close>

text \<open>
  The source functions \<^verbatim>\<open>_mq_init\<close>, \<^verbatim>\<open>_mq_deinit\<close>, \<^verbatim>\<open>_mq_accept\<close>,
  \<^verbatim>\<open>_mq_connect\<close>, \<^verbatim>\<open>_mq_set_recv_cb\<close>, \<^verbatim>\<open>_mq_send\<close>, \<^verbatim>\<open>_mq_recv\<close> and
  \<^verbatim>\<open>_mq_notify_update\<close> are embedded under their names without the leading underscore
  (an identifier cannot start with one); \<^verbatim>\<open>on_recv\<close> and \<^verbatim>\<open>on_connect\<close> keep their
  names. The library calls they make (\<^verbatim>\<open>mq_open\<close>, \<^verbatim>\<open>mq_send\<close>, \<^verbatim>\<open>sem_wait\<close>, ...)
  carry the prefix \<open>posix_\<close>; their definitions follow the POSIX descriptions of the calls.
  The state of the process and of the kernel's queue namespace is passed explicitly.
  A function returns \<open>None\<close> where the C program has no defined return to its caller:
  it dereferences or writes through an invalid pointer, reads past an array, or blocks
  for ever.
\<close>

subsection \<open>Constants\<close>

definition MQ_MAXMSG :: nat where "MQ_MAXMSG = 5"
definition MQ_MSGSIZE :: nat where "MQ_MSGSIZE = 1024"
definition MQ_MSG_PRIO :: nat where "MQ_MSG_PRIO = 10"
definition MAX_MQ_NAME :: nat where "MAX_MQ_NAME = 256"

text \<open>The limits of the system on the name of a queue: \<^verbatim>\<open>NAME_MAX\<close> characters after
  the leading slash, and \<^verbatim>\<open>PATH_MAX\<close> bytes for a string handed to the kernel.\<close>
definition NAME_MAX :: nat where "NAME_MAX = 255"
definition PATH_MAX :: nat where "PATH_MAX = 4096"

subsection \<open>C strings in character arrays\<close>

abbreviation NUL :: char where "NUL \<equiv> CHR 0x00"

text \<open>The string held by an array: the characters before the first NUL. An array
  without NUL holds no string (reading it as one runs past its end).\<close>
definition c_str :: "string \<Rightarrow> string option" where
  "c_str a = (if NUL \<in> set a then Some (takeWhile (\<lambda>c. c \<noteq> NUL) a) else None)"

definition strlen :: "string \<Rightarrow> nat option" where
  "strlen a = map_option length (c_str a)"

text \<open>\<^verbatim>\<open>strncpy(dst, src, n)\<close>: the new contents of the \<open>n\<close> characters of \<open>dst\<close>.
  At most \<open>n\<close> characters of the array \<open>src\<close> are read, up to its first NUL; the rest of
  \<open>dst\<close> is filled with NUL; there is no terminator when \<open>src\<close> holds \<open>n\<close> or more
  characters before its NUL.\<close>
definition strncpy :: "nat \<Rightarrow> string \<Rightarrow> string option" where
  "strncpy n src =
     (let s = takeWhile (\<lambda>c. c \<noteq> NUL) (take n src)
      in if length s < n \<and> length src \<le> length s then None
         else Some (s @ replicate (n - length s) NUL))"

text \<open>\<^verbatim>\<open>strcmp\<close> on two arrays: the comparison stops at the first position where the
  characters differ or both are NUL.\<close>
fun strcmp :: "string \<Rightarrow> string \<Rightarrow> int option" where
  "strcmp [] _ = None"
| "strcmp _ [] = None"
| "strcmp (a # as) (b # bs) =
     (if a \<noteq> b then Some (int (of_char a) - int (of_char b))
      else if a = NUL then Some 0
      else strcmp as bs)"

subsection \<open>Data\<close>

text \<open>\<^verbatim>\<open>enum ipc_role\<close> is declared in libipc.h; the source names \<^verbatim>\<open>IPC_SERVER\<close> and
  treats every other value as the client.\<close>
datatype ipc_role = IPC_SERVER | IPC_CLIENT

datatype errno = ENOENT | EEXIST | EBADF | EBUSY | EAGAIN | EMSGSIZE | ETIMEDOUT
  | ENOMEM | ENAMETOOLONG | EINVAL | EACCES

text \<open>The two notification functions passed to \<^verbatim>\<open>mq_notify\<close>.\<close>
datatype mq_notify_cb = On_connect | On_recv

datatype oflag = O_RDWR | O_WRONLY | O_EXCL | O_CREAT | O_NONBLOCK

record timeval =
  tv_sec :: "64 word"
  tv_usec :: "64 word"

record timespec =
  ts_sec :: "64 word"
  ts_nsec :: "64 word"

text \<open>\<^verbatim>\<open>struct mq_ctx\<close>. Pointers are addresses (\<open>nat\<close>), \<open>None\<close> is \<^verbatim>\<open>NULL\<close>. The two
  names are arrays of \<open>MAX_MQ_NAME\<close> characters. The semaphore is its count.\<close>
record mq_ctx =
  mq_wr :: int
  mq_rd :: int
  mq_wr_name :: string
  mq_rd_name :: string
  role :: ipc_role
  sem :: nat
  parent :: "nat option"

text \<open>\<^verbatim>\<open>struct ipc\<close> is declared in libipc.h; the source reads only its field \<^verbatim>\<open>ctx\<close>.\<close>
record ipc =
  ctx :: "nat option"

text \<open>A queue of the kernel: its messages (oldest first; every message of this program
  has the same priority), its attributes, and the notification registered on it:
  the descriptor it was registered through, the function and its argument.\<close>
record mqueue =
  q_msgs :: "string list"
  q_maxmsg :: nat
  q_msgsize :: nat
  q_notify :: "(int \<times> mq_notify_cb \<times> nat) option"

text \<open>What the program asks of its environment, in order.\<close>
datatype call =
    C_calloc "nat option"
  | C_free nat
  | C_mq_unlink string int
  | C_mq_open string "oflag list" int
  | C_mq_close int int
  | C_mq_notify int mq_notify_cb nat int
  | C_mq_receive int nat int
  | C_mq_send int string nat int
  | C_sem_init nat int
  | C_sem_post nat
  | C_sem_wait nat
  | C_sem_timedwait nat timespec
  | C_sem_destroy nat
  | C_gettimeofday timeval
  | C_printf string
  | C_recv_cb nat "nat option" "nat option" string int

text \<open>What other processes and the clock do while a thread of this process is blocked:
  a message arrives on a named queue, or time passes (microseconds).\<close>
datatype event = Arrive string string | Elapse nat

text \<open>
  The kernel's queues (\<open>mq_names\<close>, \<open>mq_objs\<close>), the wall clock in microseconds, the
  descriptors and the memory of this process (contexts, \<^verbatim>\<open>struct ipc\<close> objects, byte
  buffers), the two file-scope variables \<^verbatim>\<open>_mq_recv_cb\<close> and \<^verbatim>\<open>_mq_recv_buf\<close>, and the
  environment: \<open>faults\<close> says for each coming allocation-like call (\<^verbatim>\<open>calloc\<close>,
  \<^verbatim>\<open>sem_init\<close>, \<^verbatim>\<open>mq_open\<close>, \<^verbatim>\<open>mq_notify\<close>) whether it fails for lack of resources,
  \<open>sched\<close> holds the events to come, \<open>trace\<close> records the calls made.
  \<^verbatim>\<open>MAX_IPC_MESSAGE_SIZE\<close> is a macro of libipc.h: it is a parameter here.
  Signals (\<^verbatim>\<open>EINTR\<close>) and permissions are not modelled.
\<close>
record world =
  mq_names :: "string \<rightharpoonup> nat"
  mq_objs :: "nat \<rightharpoonup> mqueue"
  next_qid :: nat
  clock :: nat
  mq_fds :: "int \<rightharpoonup> nat \<times> oflag list"
  next_fd :: nat
  ctxs :: "nat \<rightharpoonup> mq_ctx"
  ipcs :: "nat \<rightharpoonup> ipc"
  bufs :: "nat \<rightharpoonup> string"
  next_ptr :: nat
  mq_recv_cb :: "nat option"
  mq_recv_buf :: "nat option"
  MAX_IPC_MESSAGE_SIZE :: nat
  errno :: "errno option"
  faults :: "bool list"
  sched :: "event list"
  trace :: "call list"

subsection \<open>The environment: library calls\<close>

definition record_call :: "call \<Rightarrow> world \<Rightarrow> world" where
  "record_call c w = w\<lparr>trace := trace w @ [c]\<rparr>"

definition printf :: "string \<Rightarrow> world \<Rightarrow> world" where
  "printf fmt w = record_call (C_printf fmt) w"

definition next_fault :: "world \<Rightarrow> bool \<times> world" where
  "next_fault w = (case faults w of [] \<Rightarrow> (False, w) | b # bs \<Rightarrow> (b, w\<lparr>faults := bs\<rparr>))"

definition fails :: "errno \<Rightarrow> call \<Rightarrow> world \<Rightarrow> int \<times> world" where
  "fails e c w = (-1, record_call c (w\<lparr>errno := Some e\<rparr>))"

text \<open>\<^verbatim>\<open>CALLOC(1, struct mq_ctx)\<close>: a zero-filled context at a fresh address.
  The role of a zero-filled context is never read before it is assigned.\<close>
definition zero_ctx :: mq_ctx where
  "zero_ctx = \<lparr>mq_wr = 0, mq_rd = 0, mq_wr_name = replicate MAX_MQ_NAME NUL,
     mq_rd_name = replicate MAX_MQ_NAME NUL, role = IPC_SERVER, sem = 0, parent = None\<rparr>"

definition calloc_ctx :: "world \<Rightarrow> nat option \<times> world" where
  "calloc_ctx w =
     (let (f, w1) = next_fault w in
      if f then (None, record_call (C_calloc None) (w1\<lparr>errno := Some ENOMEM\<rparr>))
      else let p = next_ptr w1 in
        (Some p, record_call (C_calloc (Some p))
           (w1\<lparr>ctxs := (ctxs w1)(p \<mapsto> zero_ctx), next_ptr := p + 1\<rparr>)))"

definition calloc_buf :: "world \<Rightarrow> nat \<Rightarrow> nat option \<times> world" where
  "calloc_buf w n =
     (let (f, w1) = next_fault w in
      if f then (None, record_call (C_calloc None) (w1\<lparr>errno := Some ENOMEM\<rparr>))
      else let p = next_ptr w1 in
        (Some p, record_call (C_calloc (Some p))
           (w1\<lparr>bufs := (bufs w1)(p \<mapsto> replicate n NUL), next_ptr := p + 1\<rparr>)))"

text \<open>\<^verbatim>\<open>free\<close> of a byte buffer; freeing an address that holds none is undefined.\<close>
definition free_buf :: "world \<Rightarrow> nat \<Rightarrow> world option" where
  "free_buf w p =
     (if p \<in> dom (bufs w) then Some (record_call (C_free p) (w\<lparr>bufs := (bufs w)(p := None)\<rparr>))
      else None)"

definition free_ctx :: "world \<Rightarrow> nat \<Rightarrow> world" where
  "free_ctx w p = record_call (C_free p) (w\<lparr>ctxs := (ctxs w)(p := None)\<rparr>)"

text \<open>The form of a queue name (\<^verbatim>\<open>mq_overview(7)\<close>, \<^verbatim>\<open>mq_open(3)\<close>), checked by \<^verbatim>\<open>mq_open\<close>
  before anything else: a slash followed by one to \<^verbatim>\<open>NAME_MAX\<close> characters, none of them a
  slash. The library refuses a name that does not begin with a slash (\<^verbatim>\<open>EINVAL\<close>); the
  kernel refuses the rest of the name when it is empty (\<^verbatim>\<open>ENOENT\<close>), is \<^verbatim>\<open>.\<close> or \<^verbatim>\<open>..\<close> or
  contains a slash (\<^verbatim>\<open>EACCES\<close>), or is too long (\<^verbatim>\<open>ENAMETOOLONG\<close>). \<open>None\<close>: the name is
  well formed.\<close>
definition mq_name_error :: "string \<Rightarrow> errno option" where
  "mq_name_error name =
     (case name of
        [] \<Rightarrow> Some EINVAL
      | c # rest \<Rightarrow>
          if c \<noteq> CHR ''/'' then Some EINVAL
          else if PATH_MAX \<le> length rest then Some ENAMETOOLONG
          else if rest = [] then Some ENOENT
          else if rest = ''.'' \<or> rest = ''..'' \<or> CHR ''/'' \<in> set rest then Some EACCES
          else if NAME_MAX < length rest then Some ENAMETOOLONG
          else None)"

text \<open>\<^verbatim>\<open>mq_unlink\<close>: the name goes; the queue itself lives on for those who have it open.
  Queues exist under well-formed names only; a name that denotes none is refused for its
  form when it is ill formed, and else with \<^verbatim>\<open>ENOENT\<close>.\<close>
definition posix_mq_unlink :: "world \<Rightarrow> string \<Rightarrow> int \<times> world" where
  "posix_mq_unlink w name =
     (case mq_names w name of
        None \<Rightarrow> fails (case mq_name_error name of Some e \<Rightarrow> e | None \<Rightarrow> ENOENT)
                  (C_mq_unlink name (-1)) w
      | Some q \<Rightarrow> (0, record_call (C_mq_unlink name 0) (w\<lparr>mq_names := (mq_names w)(name := None)\<rparr>)))"

definition new_fd :: "world \<Rightarrow> string \<Rightarrow> oflag list \<Rightarrow> nat \<Rightarrow> int \<times> world" where
  "new_fd w name fl q =
     (let fd = int (next_fd w) in
      (fd, record_call (C_mq_open name fl fd)
         (w\<lparr>mq_fds := (mq_fds w)(fd \<mapsto> (q, fl)), next_fd := next_fd w + 1\<rparr>)))"

text \<open>\<^verbatim>\<open>mq_open(name, oflag, mode, attr)\<close>; \<open>attr\<close> is (\<^verbatim>\<open>mq_maxmsg\<close>, \<^verbatim>\<open>mq_msgsize\<close>).
  \<^verbatim>\<open>O_EXCL\<close> has an effect only together with \<^verbatim>\<open>O_CREAT\<close>. Errors of the name are
  reported before a lack of resources.\<close>
definition posix_mq_open :: "world \<Rightarrow> string \<Rightarrow> oflag list \<Rightarrow> nat \<times> nat \<Rightarrow> int \<times> world" where
  "posix_mq_open w name fl attr =
     (case mq_name_error name of
        Some e \<Rightarrow> fails e (C_mq_open name fl (-1)) w
      | None \<Rightarrow>
          (case mq_names w name of
             Some q \<Rightarrow>
               if O_CREAT \<in> set fl \<and> O_EXCL \<in> set fl
               then fails EEXIST (C_mq_open name fl (-1)) w
               else let (f, w1) = next_fault w in
                 if f then fails ENOMEM (C_mq_open name fl (-1)) w1
                 else new_fd w1 name fl q
           | None \<Rightarrow>
               if O_CREAT \<notin> set fl then fails ENOENT (C_mq_open name fl (-1)) w
               else let (f, w1) = next_fault w in
                 if f then fails ENOMEM (C_mq_open name fl (-1)) w1
                 else let q = next_qid w1 in
                   new_fd (w1\<lparr>mq_names := (mq_names w1)(name \<mapsto> q),
                              mq_objs := (mq_objs w1)(q \<mapsto>
                                \<lparr>q_msgs = [], q_maxmsg = fst attr, q_msgsize = snd attr,
                                 q_notify = None\<rparr>),
                              next_qid := q + 1\<rparr>) name fl q))"

text \<open>\<^verbatim>\<open>mq_close\<close>: a notification registered through the descriptor is removed.\<close>
definition posix_mq_close :: "world \<Rightarrow> int \<Rightarrow> int \<times> world" where
  "posix_mq_close w fd =
     (case mq_fds w fd of
        None \<Rightarrow> fails EBADF (C_mq_close fd (-1)) w
      | Some (q, fl) \<Rightarrow>
          let w1 = w\<lparr>mq_fds := (mq_fds w)(fd := None)\<rparr>;
              w2 = (case mq_objs w1 q of
                      None \<Rightarrow> w1
                    | Some qo \<Rightarrow>
                        (case q_notify qo of
                           None \<Rightarrow> w1
                         | Some (fd', h, a) \<Rightarrow>
                             if fd' = fd
                             then w1\<lparr>mq_objs := (mq_objs w1)(q \<mapsto> qo\<lparr>q_notify := None\<rparr>)\<rparr>
                             else w1))
          in (0, record_call (C_mq_close fd 0) w2))"

text \<open>\<^verbatim>\<open>mq_notify\<close> with \<^verbatim>\<open>SIGEV_THREAD\<close>: one registration per queue, for one arrival.\<close>
definition posix_mq_notify :: "world \<Rightarrow> int \<Rightarrow> mq_notify_cb \<Rightarrow> nat \<Rightarrow> int \<times> world" where
  "posix_mq_notify w fd cb arg =
     (case mq_fds w fd of
        None \<Rightarrow> fails EBADF (C_mq_notify fd cb arg (-1)) w
      | Some (q, fl) \<Rightarrow>
          (case mq_objs w q of
             None \<Rightarrow> fails EBADF (C_mq_notify fd cb arg (-1)) w
           | Some qo \<Rightarrow>
               if q_notify qo \<noteq> None then fails EBUSY (C_mq_notify fd cb arg (-1)) w
               else let (f, w1) = next_fault w in
                 if f then fails ENOMEM (C_mq_notify fd cb arg (-1)) w1
                 else (0, record_call (C_mq_notify fd cb arg 0)
                        (w1\<lparr>mq_objs := (mq_objs w1)(q \<mapsto> qo\<lparr>q_notify := Some (fd, cb, arg)\<rparr>)\<rparr>))))"

text \<open>\<^verbatim>\<open>mq_receive(mqdes, buf, len, NULL)\<close>: the result and the message taken.
  On an empty queue a descriptor without \<^verbatim>\<open>O_NONBLOCK\<close> blocks.\<close>
definition posix_mq_receive :: "world \<Rightarrow> int \<Rightarrow> nat \<Rightarrow> (int \<times> string \<times> world) option" where
  "posix_mq_receive w fd len =
     (let bad = (\<lambda>e. let (r, w1) = fails e (C_mq_receive fd len (-1)) w in Some (r, [], w1)) in
      case mq_fds w fd of
        None \<Rightarrow> bad EBADF
      | Some (q, fl) \<Rightarrow>
          if O_RDWR \<notin> set fl then bad EBADF
          else (case mq_objs w q of
             None \<Rightarrow> bad EBADF
           | Some qo \<Rightarrow>
               if len < q_msgsize qo then bad EMSGSIZE
               else (case q_msgs qo of
                  [] \<Rightarrow> if O_NONBLOCK \<in> set fl then bad EAGAIN else None
                | m # ms \<Rightarrow>
                    Some (int (length m), m,
                      record_call (C_mq_receive fd len (int (length m)))
                        (w\<lparr>mq_objs := (mq_objs w)(q \<mapsto> qo\<lparr>q_msgs := ms\<rparr>)\<rparr>)))))"

definition posix_sem_init :: "world \<Rightarrow> nat \<Rightarrow> nat \<Rightarrow> int \<times> world" where
  "posix_sem_init w p v =
     (let (f, w1) = next_fault w in
      if f then fails EINVAL (C_sem_init p (-1)) w1
      else (0, record_call (C_sem_init p 0)
              (w1\<lparr>ctxs := (case ctxs w1 p of None \<Rightarrow> ctxs w1
                                | Some c \<Rightarrow> (ctxs w1)(p \<mapsto> c\<lparr>sem := v\<rparr>))\<rparr>)))"

definition posix_sem_post :: "world \<Rightarrow> nat \<Rightarrow> world" where
  "posix_sem_post w p =
     record_call (C_sem_post p)
       (w\<lparr>ctxs := (case ctxs w p of None \<Rightarrow> ctxs w
                    | Some c \<Rightarrow> (ctxs w)(p \<mapsto> c\<lparr>sem := sem c + 1\<rparr>))\<rparr>)"

definition posix_sem_destroy :: "world \<Rightarrow> nat \<Rightarrow> world" where
  "posix_sem_destroy w p = record_call (C_sem_destroy p) w"

definition posix_gettimeofday :: "world \<Rightarrow> timeval \<times> world" where
  "posix_gettimeofday w =
     (let now = \<lparr>tv_sec = word_of_nat (clock w div 1000000),
                 tv_usec = word_of_nat (clock w mod 1000000)\<rparr>
      in (now, record_call (C_gettimeofday now) w))"

subsection \<open>The source: receiving and the notification functions\<close>

text \<open>\<^verbatim>\<open>(struct mq_ctx *)ipc->ctx\<close>, dereferenced: the address and the context.\<close>
definition ipc_ctx :: "world \<Rightarrow> nat option \<Rightarrow> (nat \<times> mq_ctx) option" where
  "ipc_ctx w ipc =
     (case ipc of None \<Rightarrow> None
      | Some i \<Rightarrow> (case ipcs w i of None \<Rightarrow> None
        | Some s \<Rightarrow> (case ctx s of None \<Rightarrow> None
          | Some p \<Rightarrow> (case ctxs w p of None \<Rightarrow> None
            | Some c \<Rightarrow> Some (p, c)))))"

text \<open>An assignment to fields of the context at a valid address.\<close>
definition ctx_upd :: "nat \<Rightarrow> (mq_ctx \<Rightarrow> mq_ctx) \<Rightarrow> world \<Rightarrow> world" where
  "ctx_upd p f w = (case ctxs w p of None \<Rightarrow> w | Some c \<Rightarrow> w\<lparr>ctxs := (ctxs w)(p \<mapsto> f c)\<rparr>)"

text \<open>\<^verbatim>\<open>_mq_recv(ipc, buf, len)\<close>: the result and the bytes written to the start of \<open>buf\<close>.\<close>
definition mq_recv :: "world \<Rightarrow> nat option \<Rightarrow> nat \<Rightarrow> (int \<times> string \<times> world) option" where
  "mq_recv w ipc len =
     (case ipc_ctx w ipc of None \<Rightarrow> None
      | Some (p, c) \<Rightarrow>
          (case posix_mq_receive w (mq_rd c) len of None \<Rightarrow> None
           | Some (ret, m, w1) \<Rightarrow>
               if ret = -1 then Some (-1, m, printf ''mq_receive failed %d: %s'' w1)
               else Some (ret, m, w1)))"

definition mq_notify_update :: "world \<Rightarrow> nat \<Rightarrow> mq_notify_cb \<Rightarrow> (int \<times> world) option" where
  "mq_notify_update w p cb =
     (case ctxs w p of None \<Rightarrow> None
      | Some c \<Rightarrow>
          let (r, w1) = posix_mq_notify w (mq_rd c) cb p in
          if r = -1 then Some (-1, printf ''mq_notify failed %d: %s'' w1)
          else Some (0, w1))"

text \<open>The bytes of a received message land at the start of the buffer \<^verbatim>\<open>_mq_recv_buf\<close>.\<close>
definition write_buf :: "world \<Rightarrow> nat option \<Rightarrow> string \<Rightarrow> world option" where
  "write_buf w b m =
     (case b of None \<Rightarrow> None
      | Some a \<Rightarrow> (case bufs w a of None \<Rightarrow> None
        | Some old \<Rightarrow>
            if length old < length m then None
            else Some (w\<lparr>bufs := (bufs w)(a \<mapsto> m @ drop (length m) old)\<rparr>)))"

text \<open>The call of the registered receive callback is recorded with its arguments and
  the bytes it is given; what the callback itself does is outside the program.\<close>
definition on_recv :: "world \<Rightarrow> nat \<Rightarrow> world option" where
  "on_recv w sv =
     (case ctxs w sv of None \<Rightarrow> None
      | Some c \<Rightarrow>
          let ipc = parent c in
          (case mq_notify_update w sv On_recv of None \<Rightarrow> None
           | Some (r, w1) \<Rightarrow>
               if r = -1 then Some (printf ''_mq_notify_update failed!'' w1)
               else (case mq_recv w1 ipc (MAX_IPC_MESSAGE_SIZE w1) of None \<Rightarrow> None
                 | Some (len, m, w2) \<Rightarrow>
                     if len = -1 then Some (printf ''_mq_recv failed!'' w2)
                     else (case write_buf w2 (mq_recv_buf w2) m of None \<Rightarrow> None
                       | Some w3 \<Rightarrow>
                           (case mq_recv_cb w3 of
                              None \<Rightarrow> Some w3
                            | Some cb \<Rightarrow>
                                Some (record_call
                                  (C_recv_cb cb ipc (mq_recv_buf w3) (take (nat len) m) len) w3))))))"

definition on_connect :: "world \<Rightarrow> nat \<Rightarrow> world option" where
  "on_connect w sv =
     (case ctxs w sv of None \<Rightarrow> None
      | Some c0 \<Rightarrow>
          let ipc = parent c0 in
          (case mq_notify_update w sv On_recv of None \<Rightarrow> None
           | Some (r, w1) \<Rightarrow>
               if r = -1 then Some (printf ''_mq_notify_update failed!'' w1)
               else (case mq_recv w1 ipc (MAX_IPC_MESSAGE_SIZE w1) of None \<Rightarrow> None
                 | Some (len, m, w2) \<Rightarrow>
                     if len \<le> 0 then Some (printf ''_mq_recv failed!'' w2)
                     else let buf = m @ replicate (MAX_IPC_MESSAGE_SIZE w2 - length m) NUL in
                       (case ctxs w2 sv of None \<Rightarrow> None
                        | Some c \<Rightarrow>
                            if role c = IPC_SERVER then
                              (case strncpy MAX_MQ_NAME buf of None \<Rightarrow> None
                               | Some a \<Rightarrow>
                                   Some (posix_sem_post (ctx_upd sv (\<lambda>c. c\<lparr>mq_wr_name := a\<rparr>) w2) sv))
                            else
                              (case strcmp buf (mq_rd_name c) of None \<Rightarrow> None
                               | Some v \<Rightarrow>
                                   if v \<noteq> 0 then Some (printf ''connect response check failed!'' w2)
                                   else Some (posix_sem_post w2 sv))))))"

subsection \<open>The environment: arrival of a message, sending, waiting\<close>

definition fire :: "world \<Rightarrow> mq_notify_cb \<Rightarrow> nat \<Rightarrow> world option" where
  "fire w cb arg = (case cb of On_connect \<Rightarrow> on_connect w arg | On_recv \<Rightarrow> on_recv w arg)"

text \<open>A message is put on a queue. When the queue was empty and a notification is
  registered, the registration is used up and its function runs in a thread of its own,
  here to its end at once.\<close>
definition mq_arrive :: "world \<Rightarrow> nat \<Rightarrow> string \<Rightarrow> world option" where
  "mq_arrive w q m =
     (case mq_objs w q of None \<Rightarrow> Some w
      | Some qo \<Rightarrow>
          if q_msgs qo = [] then
            (case q_notify qo of
               None \<Rightarrow> Some (w\<lparr>mq_objs := (mq_objs w)(q \<mapsto> qo\<lparr>q_msgs := [m]\<rparr>)\<rparr>)
             | Some (fd, cb, arg) \<Rightarrow>
                 fire (w\<lparr>mq_objs := (mq_objs w)(q \<mapsto> qo\<lparr>q_msgs := [m], q_notify := None\<rparr>)\<rparr>) cb arg)
          else Some (w\<lparr>mq_objs := (mq_objs w)(q \<mapsto> qo\<lparr>q_msgs := q_msgs qo @ [m]\<rparr>)\<rparr>))"

text \<open>\<^verbatim>\<open>mq_send\<close>; on a full queue a descriptor without \<^verbatim>\<open>O_NONBLOCK\<close> blocks.\<close>
definition posix_mq_send :: "world \<Rightarrow> int \<Rightarrow> string \<Rightarrow> nat \<Rightarrow> (int \<times> world) option" where
  "posix_mq_send w fd m prio =
     (case mq_fds w fd of
        None \<Rightarrow> Some (fails EBADF (C_mq_send fd m prio (-1)) w)
      | Some (q, fl) \<Rightarrow>
          if O_WRONLY \<notin> set fl \<and> O_RDWR \<notin> set fl then Some (fails EBADF (C_mq_send fd m prio (-1)) w)
          else (case mq_objs w q of
             None \<Rightarrow> Some (fails EBADF (C_mq_send fd m prio (-1)) w)
           | Some qo \<Rightarrow>
               if q_msgsize qo < length m then Some (fails EMSGSIZE (C_mq_send fd m prio (-1)) w)
               else if q_maxmsg qo \<le> length (q_msgs qo) then
                 (if O_NONBLOCK \<in> set fl then Some (fails EAGAIN (C_mq_send fd m prio (-1)) w)
                  else None)
               else map_option (Pair 0) (mq_arrive (record_call (C_mq_send fd m prio 0) w) q m)))"

text \<open>\<^verbatim>\<open>_mq_send(ipc, buf, len)\<close>: \<open>buf\<close> is the memory from the pointer on; the result
  \<^verbatim>\<open>len\<close> is converted from \<^verbatim>\<open>size_t\<close> to \<^verbatim>\<open>int\<close>.\<close>
definition mq_send :: "world \<Rightarrow> nat option \<Rightarrow> string \<Rightarrow> nat \<Rightarrow> (int \<times> world) option" where
  "mq_send w ipc buf len =
     (case ipc_ctx w ipc of None \<Rightarrow> None
      | Some (p, c) \<Rightarrow>
          if length buf < len then None
          else (case posix_mq_send w (mq_wr c) (take len buf) MQ_MSG_PRIO of None \<Rightarrow> None
            | Some (r, w1) \<Rightarrow>
                if r \<noteq> 0 then Some (-1, printf ''mq_send failed %d: %s'' w1)
                else Some (sint (word_of_nat len :: 32 word), w1)))"

text \<open>One event of the environment. A message that does not fit the queue does not arrive.\<close>
fun env_step :: "world \<Rightarrow> event \<Rightarrow> world option" where
  "env_step w (Arrive name m) =
     (case mq_names w name of None \<Rightarrow> Some w
      | Some q \<Rightarrow> (case mq_objs w q of None \<Rightarrow> Some w
        | Some qo \<Rightarrow>
            if q_msgsize qo < length m \<or> q_maxmsg qo \<le> length (q_msgs qo) then Some w
            else mq_arrive w q m))"
| "env_step w (Elapse d) = Some (w\<lparr>clock := clock w + d\<rparr>)"

text \<open>\<^verbatim>\<open>sem_wait\<close>: while the count is zero the thread is blocked and the events of the
  environment take place; with no event left it stays blocked.\<close>
fun wait_loop :: "event list \<Rightarrow> world \<Rightarrow> nat \<Rightarrow> world option" where
  "wait_loop [] w p =
     (case ctxs w p of None \<Rightarrow> None
      | Some c \<Rightarrow>
          if 0 < sem c then Some (ctx_upd p (\<lambda>c. c\<lparr>sem := sem c - 1\<rparr>) (w\<lparr>sched := []\<rparr>))
          else None)"
| "wait_loop (e # es) w p =
     (case ctxs w p of None \<Rightarrow> None
      | Some c \<Rightarrow>
          if 0 < sem c then Some (ctx_upd p (\<lambda>c. c\<lparr>sem := sem c - 1\<rparr>) (w\<lparr>sched := e # es\<rparr>))
          else (case env_step w e of None \<Rightarrow> None | Some w1 \<Rightarrow> wait_loop es w1 p))"

definition posix_sem_wait :: "world \<Rightarrow> nat \<Rightarrow> world option" where
  "posix_sem_wait w p = wait_loop (sched w) (record_call (C_sem_wait p) w) p"

text \<open>A \<^verbatim>\<open>timespec\<close> in nanoseconds, and the first clock value (microseconds) not before it.\<close>
definition ts_ns :: "timespec \<Rightarrow> int" where
  "ts_ns ts = sint (ts_sec ts) * 1000000000 + sint (ts_nsec ts)"

definition ts_us_up :: "timespec \<Rightarrow> nat" where
  "ts_us_up ts = nat ((ts_ns ts + 999) div 1000)"

definition reached :: "world \<Rightarrow> timespec \<Rightarrow> bool" where
  "reached w ts = (ts_ns ts \<le> int (clock w) * 1000)"

definition ts_valid :: "timespec \<Rightarrow> bool" where
  "ts_valid ts = (0 \<le> sint (ts_nsec ts) \<and> sint (ts_nsec ts) < 1000000000)"

text \<open>\<^verbatim>\<open>sem_timedwait\<close>: as \<^verbatim>\<open>sem_wait\<close>, but the wait ends with \<^verbatim>\<open>ETIMEDOUT\<close> once the
  clock has reached the absolute time; with no event left the clock runs up to it.\<close>
fun timedwait_loop :: "event list \<Rightarrow> world \<Rightarrow> nat \<Rightarrow> timespec \<Rightarrow> (int \<times> world) option" where
  "timedwait_loop [] w p ts =
     (case ctxs w p of None \<Rightarrow> None
      | Some c \<Rightarrow>
          if 0 < sem c then Some (0, ctx_upd p (\<lambda>c. c\<lparr>sem := sem c - 1\<rparr>) (w\<lparr>sched := []\<rparr>))
          else if \<not> ts_valid ts then Some (-1, w\<lparr>sched := [], errno := Some EINVAL\<rparr>)
          else Some (-1, w\<lparr>sched := [], errno := Some ETIMEDOUT,
                       clock := max (clock w) (ts_us_up ts)\<rparr>))"
| "timedwait_loop (e # es) w p ts =
     (case ctxs w p of None \<Rightarrow> None
      | Some c \<Rightarrow>
          if 0 < sem c then Some (0, ctx_upd p (\<lambda>c. c\<lparr>sem := sem c - 1\<rparr>) (w\<lparr>sched := e # es\<rparr>))
          else if \<not> ts_valid ts then Some (-1, w\<lparr>sched := e # es, errno := Some EINVAL\<rparr>)
          else if reached w ts then Some (-1, w\<lparr>sched := e # es, errno := Some ETIMEDOUT\<rparr>)
          else (case env_step w e of None \<Rightarrow> None | Some w1 \<Rightarrow> timedwait_loop es w1 p ts))"

definition posix_sem_timedwait :: "world \<Rightarrow> nat \<Rightarrow> timespec \<Rightarrow> (int \<times> world) option" where
  "posix_sem_timedwait w p ts = timedwait_loop (sched w) (record_call (C_sem_timedwait p ts) w) p ts"

subsection \<open>The source: the operations of the backend\<close>

text \<open>\<open>name\<close> is the string a \<^verbatim>\<open>const char *\<close> argument points to: the characters
  before its terminator.\<close>
definition mq_init :: "world \<Rightarrow> string \<Rightarrow> ipc_role \<Rightarrow> (nat option \<times> world) option" where
  "mq_init w name rl =
     (let (a, w1) = calloc_ctx w in
      case a of
        None \<Rightarrow> Some (None, printf ''malloc failed!'' w1)
      | Some p \<Rightarrow>
          let rflag = [O_RDWR, O_EXCL, O_CREAT, O_NONBLOCK];
              (u, w2) = posix_mq_unlink w1 name;
              (fd, w3) = posix_mq_open w2 name rflag (MQ_MAXMSG, MQ_MSGSIZE);
              w4 = ctx_upd p (\<lambda>c. c\<lparr>mq_rd := fd\<rparr>) w3
          in if fd < 0 then Some (None, printf ''mq_open %s failed %d:%s'' w4)
          else (case strncpy MAX_MQ_NAME (name @ [NUL]) of None \<Rightarrow> None
            | Some arr \<Rightarrow>
                let w5 = ctx_upd p (\<lambda>c. c\<lparr>role := rl, mq_rd_name := arr\<rparr>) w4;
                    (r, w6) = posix_sem_init w5 p 0
                in if r = -1 then Some (None, printf ''sem_init failed %d:%s'' w6)
                else let (b, w7) = calloc_buf w6 (MAX_IPC_MESSAGE_SIZE w6);
                         w8 = w7\<lparr>mq_recv_buf := b\<rparr>
                  in if b = None then Some (None, printf ''malloc failed!'' w8)
                  else (case mq_notify_update w8 p On_connect of None \<Rightarrow> None
                    | Some (r, w9) \<Rightarrow>
                        if r = -1 then Some (None, printf ''_mq_notify_update failed!'' w9)
                        else Some (Some p, w9))))"

definition mq_set_recv_cb :: "world \<Rightarrow> nat option \<Rightarrow> nat option \<Rightarrow> int \<times> world" where
  "mq_set_recv_cb w ipc cb = (0, w\<lparr>mq_recv_cb := cb\<rparr>)"

definition mq_accept :: "world \<Rightarrow> nat option \<Rightarrow> (int \<times> world) option" where
  "mq_accept w ipc =
     (case ipc_ctx w ipc of None \<Rightarrow> None
      | Some (p, c0) \<Rightarrow>
          let w1 = ctx_upd p (\<lambda>c. c\<lparr>parent := ipc\<rparr>) w in
          (case posix_sem_wait w1 p of None \<Rightarrow> None
           | Some w2 \<Rightarrow>
               (case ctxs w2 p of None \<Rightarrow> None
                | Some c \<Rightarrow>
                    (case c_str (mq_wr_name c) of None \<Rightarrow> None
                     | Some name \<Rightarrow>
                         let (fd, w3) = posix_mq_open w2 name [O_WRONLY] (MQ_MAXMSG, MQ_MSGSIZE);
                             w4 = ctx_upd p (\<lambda>c. c\<lparr>mq_wr := fd\<rparr>) w3
                         in if fd < 0 then Some (-1, printf ''mq_open %s failed: %d:%s'' w4)
                         else (case strlen (mq_wr_name c) of None \<Rightarrow> None
                           | Some n \<Rightarrow>
                               (case mq_send w4 ipc (mq_wr_name c) n of None \<Rightarrow> None
                                | Some (r, w5) \<Rightarrow>
                                    if 0 > r then Some (-1, printf ''_mq_send failed!'' w5)
                                    else Some (0, w5)))))))"

text \<open>Lines 219 to 233 of the source: the absolute time of the timed wait.\<close>
definition timeout :: "32 word" where "timeout = 5000"

definition abs_time :: "timeval \<Rightarrow> timespec" where
  "abs_time now0 =
     (let now1 = now0\<lparr>tv_usec := tv_usec now0 + ucast ((timeout mod 1000) * 1000)\<rparr>;
          now2 = now1\<lparr>tv_sec := tv_sec now1 + ucast (timeout div 1000)\<rparr>;
          now3 = (if word_sle 1000000 (tv_usec now2)
                  then now2\<lparr>tv_usec := tv_usec now2 - 1000000, tv_sec := tv_sec now2 + 1\<rparr>
                  else now2)
      in \<lparr>ts_sec = tv_sec now3, ts_nsec = tv_usec now3 * 1000\<rparr>)"

definition mq_connect :: "world \<Rightarrow> nat option \<Rightarrow> string \<Rightarrow> (int \<times> world) option" where
  "mq_connect w ipc name =
     (case ipc_ctx w ipc of None \<Rightarrow> None
      | Some (p, c0) \<Rightarrow>
          let w1 = ctx_upd p (\<lambda>c. c\<lparr>parent := ipc\<rparr>) w;
              wflag = [O_WRONLY, O_EXCL];
              (fd, w2) = posix_mq_open w1 name wflag (MQ_MAXMSG, MQ_MSGSIZE);
              w3 = ctx_upd p (\<lambda>c. c\<lparr>mq_wr := fd\<rparr>) w2
          in if fd < 0 then Some (-1, printf ''mq_open %s failed: %d:%s'' w3)
          else (case strncpy MAX_MQ_NAME (name @ [NUL]) of None \<Rightarrow> None
            | Some arr \<Rightarrow>
                let w4 = ctx_upd p (\<lambda>c. c\<lparr>mq_wr_name := arr\<rparr>) w3 in
                (case ctxs w4 p of None \<Rightarrow> None
                 | Some c \<Rightarrow>
                     (case strlen (mq_rd_name c) of None \<Rightarrow> None
                      | Some n \<Rightarrow>
                          (case mq_send w4 ipc (mq_rd_name c) n of None \<Rightarrow> None
                           | Some (r, w5) \<Rightarrow>
                               if 0 > r then Some (-1, printf ''_mq_send failed!'' w5)
                               else let (now, w6) = posix_gettimeofday w5 in
                                 (case posix_sem_timedwait w6 p (abs_time now) of None \<Rightarrow> None
                                  | Some (r, w7) \<Rightarrow>
                                      if r = -1 then Some (-1, printf ''connect %s failed %d: %s'' w7)
                                      else Some (0, w7)))))))"

text \<open>\<^verbatim>\<open>_mq_recv_buf\<close> keeps its value after \<^verbatim>\<open>free\<close>.\<close>
definition mq_deinit :: "world \<Rightarrow> nat option \<Rightarrow> world option" where
  "mq_deinit w ipc =
     (case ipc of None \<Rightarrow> Some w
      | Some i \<Rightarrow>
          (case ipc_ctx w ipc of None \<Rightarrow> None
           | Some (p, c) \<Rightarrow>
               let (r1, w1) = posix_mq_close w (mq_rd c);
                   (r2, w2) = posix_mq_close w1 (mq_wr c)
               in (case c_str (mq_rd_name c) of None \<Rightarrow> None
                 | Some rd \<Rightarrow>
                     let (r3, w3) = posix_mq_unlink w2 rd in
                     (case c_str (mq_wr_name c) of None \<Rightarrow> None
                      | Some wr \<Rightarrow>
                          let (r4, w4) = posix_mq_unlink w3 wr;
                              w5 = posix_sem_destroy w4 p
                          in (case (case mq_recv_buf w5 of None \<Rightarrow> Some w5
                                    | Some b \<Rightarrow> free_buf w5 b) of None \<Rightarrow> None
                              | Some w6 \<Rightarrow> Some (free_ctx w6 p))))))"

subsection \<open>Notions used in the statements\<close>

text \<open>The calls made between two states of one run.\<close>
definition new_calls :: "world \<Rightarrow> world \<Rightarrow> call list" where
  "new_calls w w' = drop (length (trace w)) (trace w')"

text \<open>The next allocation-like call fails for lack of resources.\<close>
definition fault_next :: "bool list \<Rightarrow> bool" where
  "fault_next fs = (case fs of [] \<Rightarrow> False | b # bs \<Rightarrow> b)"

definition no_fault :: "world \<Rightarrow> bool" where
  "no_fault w = (\<not> fault_next (faults w))"

text \<open>A notification is registered through descriptor \<open>fd\<close> for function \<open>cb\<close> with
  argument \<open>sv\<close>: the next message arriving on the empty queue runs \<open>cb\<close>.\<close>
definition armed :: "world \<Rightarrow> int \<Rightarrow> mq_notify_cb \<Rightarrow> nat \<Rightarrow> bool" where
  "armed w fd cb sv =
     (case mq_fds w fd of None \<Rightarrow> False
      | Some (q, fl) \<Rightarrow> (case mq_objs w q of None \<Rightarrow> False
        | Some qo \<Rightarrow> q_notify qo = Some (fd, cb, sv)))"

fun notify_or_receive :: "call \<Rightarrow> bool" where
  "notify_or_receive (C_mq_notify fd cb a r) = True"
| "notify_or_receive (C_mq_receive fd n r) = True"
| "notify_or_receive _ = False"

text \<open>The calls that give a resource back.\<close>
fun releases :: "call \<Rightarrow> bool" where
  "releases (C_mq_close fd r) = True"
| "releases (C_mq_unlink n r) = True"
| "releases (C_free p) = True"
| "releases _ = False"

text \<open>A sequence of registrations, each on some endpoint.\<close>
definition register_all :: "(nat option \<times> nat option) list \<Rightarrow> world \<Rightarrow> world" where
  "register_all rs w = fold (\<lambda>(ipc, cb) w. snd (mq_set_recv_cb w ipc cb)) rs w"

subsection \<open>Notions of the handshake wait\<close>

text \<open>The first message received during a wait of \<open>t\<close> microseconds: the message of
  the first event of the schedule, before \<open>t\<close> microseconds have elapsed, that puts a message
  on the queue (\<open>ok n m\<close>: the message \<open>m\<close> sent to the name \<open>n\<close> arrives there).\<close>
fun first_received :: "(string \<Rightarrow> string \<Rightarrow> bool) \<Rightarrow> nat \<Rightarrow> event list \<Rightarrow> string option" where
  "first_received ok t [] = None"
| "first_received ok t (Elapse d # es) = (if d < t then first_received ok (t - d) es else None)"
| "first_received ok t (Arrive n m # es) =
     (if t = 0 then None else if ok n m then Some m else first_received ok t es)"

text \<open>A message \<open>m\<close> sent to the name \<open>n\<close> arrives on the queue \<open>q\<close>: the name denotes the
  queue and the message fits.\<close>
definition arrives_on :: "world \<Rightarrow> nat \<Rightarrow> string \<Rightarrow> string \<Rightarrow> bool" where
  "arrives_on w q n m =
     (mq_names w n = Some q \<and>
      (case mq_objs w q of None \<Rightarrow> False
       | Some qo \<Rightarrow> length m \<le> q_msgsize qo \<and> length (q_msgs qo) < q_maxmsg qo))"

text \<open>An event that starts no notification function, unless it is that of the queue \<open>q\<close>:
  time passing, or a message for \<open>q\<close> or for a queue on which this process has no
  notification registered.\<close>
fun harmless :: "world \<Rightarrow> nat \<Rightarrow> event \<Rightarrow> bool" where
  "harmless w q (Elapse d) = True"
| "harmless w q (Arrive n m) =
     (case mq_names w n of None \<Rightarrow> True
      | Some q' \<Rightarrow> q' = q \<or> (case mq_objs w q' of None \<Rightarrow> True | Some qo \<Rightarrow> q_notify qo = None))"

text \<open>The message \<open>m\<close> is accepted as the confirmation by a client whose read queue is
  named \<open>nm\<close> (lines 112 to 125 of the source): it is not empty, and its bytes before the
  first NUL, all of them when there is none, are \<open>nm\<close>.\<close>
definition confirms :: "string \<Rightarrow> string \<Rightarrow> bool" where
  "confirms nm m = (m \<noteq> [] \<and> takeWhile (\<lambda>x. x \<noteq> NUL) m = nm)"

text \<open>The calls on a semaphore.\<close>
fun on_gate :: "call \<Rightarrow> bool" where
  "on_gate (C_sem_post p) = True"
| "on_gate (C_sem_wait p) = True"
| "on_gate (C_sem_timedwait p ts) = True"
| "on_gate _ = False"

text \<open>A client blocked in the timed wait of \<^verbatim>\<open>_mq_connect\<close>: its context \<open>c\<close> at \<open>p\<close>, its
  \<^verbatim>\<open>struct ipc\<close> at \<open>i\<close>, its read queue \<open>qr\<close>, empty, with the notification registered for
  \<open>cb\<close>, the receive buffer of \<open>L\<close> bytes at \<open>b\<close>, and no lack of resources to come.\<close>
definition waiting :: "world \<Rightarrow> nat \<Rightarrow> mq_ctx \<Rightarrow> nat \<Rightarrow> nat \<Rightarrow> mqueue \<Rightarrow> oflag list \<Rightarrow> nat
    \<Rightarrow> nat \<Rightarrow> nat \<Rightarrow> mq_notify_cb \<Rightarrow> bool" where
  "waiting w p c i qr qro fl M b L cb =
     (ctxs w p = Some c \<and> map_option ctx (ipcs w i) = Some (Some p)
      \<and> mq_fds w (mq_rd c) = Some (qr, fl)
      \<and> mq_objs w qr = Some (qro\<lparr>q_msgs := [], q_notify := Some (mq_rd c, cb, p)\<rparr>)
      \<and> MAX_IPC_MESSAGE_SIZE w = M
      \<and> mq_recv_buf w = Some b \<and> map_option length (bufs w b) = Some L
      \<and> True \<notin> set (faults w))"

text \<open>How the timed wait with deadline \<open>D\<close> (microseconds) ends, \<open>rx\<close> being the first
  message received, if any: with 0 after one \<^verbatim>\<open>sem_post\<close> when that message is the
  confirmation; otherwise with \<^verbatim>\<open>ETIMEDOUT\<close>, not before the deadline, and no call on a
  semaphore (\<open>xs\<close>: the calls made during the wait).\<close>
definition wait_outcome :: "nat \<Rightarrow> string \<Rightarrow> nat \<Rightarrow> string option \<Rightarrow> int \<Rightarrow> world \<Rightarrow> call list
    \<Rightarrow> bool" where
  "wait_outcome p nm D rx r w' xs =
     (if (case rx of None \<Rightarrow> False | Some m \<Rightarrow> confirms nm m)
      then r = 0 \<and> filter on_gate xs = [C_sem_post p]
      else r = - 1 \<and> errno w' = Some ETIMEDOUT \<and> D \<le> clock w' \<and> filter on_gate xs = [])"

subsection \<open>Concrete runs\<close>

text \<open>A server process. The client's queue \<^verbatim>\<open>/IPC_CLIENT.7\<close> exists already; the caller
  holds a \<^verbatim>\<open>struct ipc\<close> at address 100.\<close>
definition boot_s :: world where
  "boot_s = \<lparr>mq_names = [''/IPC_CLIENT.7'' \<mapsto> 20],
     mq_objs = [20 \<mapsto> \<lparr>q_msgs = [], q_maxmsg = 5, q_msgsize = 1024, q_notify = None\<rparr>],
     next_qid = 21, clock = 1700000000123456, mq_fds = Map.empty, next_fd = 3,
     ctxs = Map.empty, ipcs = [100 \<mapsto> \<lparr>ctx = None\<rparr>], bufs = Map.empty, next_ptr = 10,
     mq_recv_cb = None, mq_recv_buf = None, MAX_IPC_MESSAGE_SIZE = 1024, errno = None,
     faults = [], sched = [], trace = []\<rparr>"

text \<open>After \<^verbatim>\<open>_mq_init("/IPC_SERVER", IPC_SERVER)\<close>.\<close>
definition srv0 :: world where
  "srv0 = boot_s\<lparr>
     mq_names := [''/IPC_CLIENT.7'' \<mapsto> 20, ''/IPC_SERVER'' \<mapsto> 21],
     mq_objs := [20 \<mapsto> \<lparr>q_msgs = [], q_maxmsg = 5, q_msgsize = 1024, q_notify = None\<rparr>,
                 21 \<mapsto> \<lparr>q_msgs = [], q_maxmsg = 5, q_msgsize = 1024,
                         q_notify = Some (3, On_connect, 10)\<rparr>],
     next_qid := 22, mq_fds := [3 \<mapsto> (21, [O_RDWR, O_EXCL, O_CREAT, O_NONBLOCK])], next_fd := 4,
     ctxs := [10 \<mapsto> \<lparr>mq_wr = 0, mq_rd = 3, mq_wr_name = replicate 256 NUL,
        mq_rd_name = ''/IPC_SERVER'' @ replicate 245 NUL, role = IPC_SERVER, sem = 0,
        parent = None\<rparr>],
     bufs := [11 \<mapsto> replicate 1024 NUL], next_ptr := 12, mq_recv_buf := Some 11,
     errno := Some ENOENT,
     trace := [C_calloc (Some 10), C_mq_unlink ''/IPC_SERVER'' (- 1),
        C_mq_open ''/IPC_SERVER'' [O_RDWR, O_EXCL, O_CREAT, O_NONBLOCK] 3, C_sem_init 10 0,
        C_calloc (Some 11), C_mq_notify 3 On_connect 10 0]\<rparr>"

text \<open>The caller has stored the context in its \<^verbatim>\<open>struct ipc\<close>; while the server waits
  in \<^verbatim>\<open>_mq_accept\<close> the client's first message arrives.\<close>
definition srv1 :: world where
  "srv1 = srv0\<lparr>ipcs := [100 \<mapsto> \<lparr>ctx = Some 10\<rparr>],
     sched := [Arrive ''/IPC_SERVER'' ''/IPC_CLIENT.7'']\<rparr>"

text \<open>After \<^verbatim>\<open>_mq_accept\<close>: the connected server.\<close>
definition srv2 :: world where
  "srv2 = srv1\<lparr>
     mq_objs := [21 \<mapsto> \<lparr>q_msgs = [], q_maxmsg = 5, q_msgsize = 1024,
                         q_notify = Some (3, On_recv, 10)\<rparr>,
                 20 \<mapsto> \<lparr>q_msgs = [''/IPC_CLIENT.7''], q_maxmsg = 5, q_msgsize = 1024,
                         q_notify = None\<rparr>],
     mq_fds := [3 \<mapsto> (21, [O_RDWR, O_EXCL, O_CREAT, O_NONBLOCK]), 4 \<mapsto> (20, [O_WRONLY])],
     next_fd := 5,
     ctxs := [10 \<mapsto> \<lparr>mq_wr = 4, mq_rd = 3,
        mq_wr_name = ''/IPC_CLIENT.7'' @ replicate 243 NUL,
        mq_rd_name = ''/IPC_SERVER'' @ replicate 245 NUL, role = IPC_SERVER, sem = 0,
        parent = Some 100\<rparr>],
     sched := [],
     trace := trace srv0 @ [C_sem_wait 10, C_mq_notify 3 On_recv 10 0, C_mq_receive 3 1024 13,
        C_sem_post 10, C_mq_open ''/IPC_CLIENT.7'' [O_WRONLY] 4,
        C_mq_send 4 ''/IPC_CLIENT.7'' 10 0]\<rparr>"

text \<open>The connected server with a receive callback (address 77), at the start of a
  notification: the message \<^verbatim>\<open>hello\<close> has arrived and the registration is used up.\<close>
definition srv_data :: world where
  "srv_data = srv2\<lparr>mq_recv_cb := Some 77,
     mq_objs := [21 \<mapsto> \<lparr>q_msgs = [''hello''], q_maxmsg = 5, q_msgsize = 1024, q_notify = None\<rparr>,
                 20 \<mapsto> \<lparr>q_msgs = [''/IPC_CLIENT.7''], q_maxmsg = 5, q_msgsize = 1024,
                         q_notify = None\<rparr>]\<rparr>"

text \<open>The same, but the message has been taken by a direct \<^verbatim>\<open>recv\<close> of the application
  before the notification function runs: the queue is empty.\<close>
definition srv_empty :: world where
  "srv_empty = srv2\<lparr>mq_recv_cb := Some 77,
     mq_objs := [21 \<mapsto> \<lparr>q_msgs = [], q_maxmsg = 5, q_msgsize = 1024, q_notify = None\<rparr>,
                 20 \<mapsto> \<lparr>q_msgs = [''/IPC_CLIENT.7''], q_maxmsg = 5, q_msgsize = 1024,
                         q_notify = None\<rparr>]\<rparr>"

text \<open>A server process in which an earlier run has left the queue \<^verbatim>\<open>/IPC_SERVER\<close> behind.\<close>
definition stale_s :: world where
  "stale_s = boot_s\<lparr>
     mq_names := [''/IPC_CLIENT.7'' \<mapsto> 20, ''/IPC_SERVER'' \<mapsto> 19],
     mq_objs := [20 \<mapsto> \<lparr>q_msgs = [], q_maxmsg = 5, q_msgsize = 1024, q_notify = None\<rparr>,
                 19 \<mapsto> \<lparr>q_msgs = [''old''], q_maxmsg = 5, q_msgsize = 1024, q_notify = None\<rparr>]\<rparr>"

text \<open>A client process. The server's queue \<^verbatim>\<open>/IPC_SERVER\<close> exists.\<close>
definition boot_c :: world where
  "boot_c = \<lparr>mq_names = [''/IPC_SERVER'' \<mapsto> 20],
     mq_objs = [20 \<mapsto> \<lparr>q_msgs = [], q_maxmsg = 5, q_msgsize = 1024, q_notify = None\<rparr>],
     next_qid = 21, clock = 1700000000123456, mq_fds = Map.empty, next_fd = 3,
     ctxs = Map.empty, ipcs = [100 \<mapsto> \<lparr>ctx = None\<rparr>], bufs = Map.empty, next_ptr = 10,
     mq_recv_cb = None, mq_recv_buf = None, MAX_IPC_MESSAGE_SIZE = 1024, errno = None,
     faults = [], sched = [], trace = []\<rparr>"

text \<open>After \<^verbatim>\<open>_mq_init("/IPC_CLIENT.7", IPC_CLIENT)\<close>, the context stored by the caller.\<close>
definition cli1 :: world where
  "cli1 = boot_c\<lparr>
     mq_names := [''/IPC_SERVER'' \<mapsto> 20, ''/IPC_CLIENT.7'' \<mapsto> 21],
     mq_objs := [20 \<mapsto> \<lparr>q_msgs = [], q_maxmsg = 5, q_msgsize = 1024, q_notify = None\<rparr>,
                 21 \<mapsto> \<lparr>q_msgs = [], q_maxmsg = 5, q_msgsize = 1024,
                         q_notify = Some (3, On_connect, 10)\<rparr>],
     next_qid := 22, mq_fds := [3 \<mapsto> (21, [O_RDWR, O_EXCL, O_CREAT, O_NONBLOCK])], next_fd := 4,
     ctxs := [10 \<mapsto> \<lparr>mq_wr = 0, mq_rd = 3, mq_wr_name = replicate 256 NUL,
        mq_rd_name = ''/IPC_CLIENT.7'' @ replicate 243 NUL, role = IPC_CLIENT, sem = 0,
        parent = None\<rparr>],
     ipcs := [100 \<mapsto> \<lparr>ctx = Some 10\<rparr>],
     bufs := [11 \<mapsto> replicate 1024 NUL], next_ptr := 12, mq_recv_buf := Some 11,
     errno := Some ENOENT,
     trace := [C_calloc (Some 10), C_mq_unlink ''/IPC_CLIENT.7'' (- 1),
        C_mq_open ''/IPC_CLIENT.7'' [O_RDWR, O_EXCL, O_CREAT, O_NONBLOCK] 3, C_sem_init 10 0,
        C_calloc (Some 11), C_mq_notify 3 On_connect 10 0]\<rparr>"

text \<open>A confirmation that is not the client's name: the name, a NUL and one more byte.\<close>
definition junk_confirmation :: string where
  "junk_confirmation = ''/IPC_CLIENT.7'' @ [NUL, CHR ''x'']"

text \<open>The client in \<^verbatim>\<open>_mq_connect\<close>, at the start of the notification for a confirmation
  \<open>m\<close>: the message is on the queue and the registration is used up.\<close>
definition cli_fire :: "string \<Rightarrow> world" where
  "cli_fire m = cli1\<lparr>
     mq_objs := [20 \<mapsto> \<lparr>q_msgs = [''/IPC_CLIENT.7''], q_maxmsg = 5, q_msgsize = 1024,
                         q_notify = None\<rparr>,
                 21 \<mapsto> \<lparr>q_msgs = [m], q_maxmsg = 5, q_msgsize = 1024, q_notify = None\<rparr>],
     mq_fds := [3 \<mapsto> (21, [O_RDWR, O_EXCL, O_CREAT, O_NONBLOCK]), 4 \<mapsto> (20, [O_WRONLY, O_EXCL])],
     next_fd := 5,
     ctxs := [10 \<mapsto> \<lparr>mq_wr = 4, mq_rd = 3,
        mq_wr_name = ''/IPC_SERVER'' @ replicate 245 NUL,
        mq_rd_name = ''/IPC_CLIENT.7'' @ replicate 243 NUL, role = IPC_CLIENT, sem = 0,
        parent = Some 100\<rparr>]\<rparr>"

text \<open>A server process in which the fourth allocation-like call fails: the \<^verbatim>\<open>calloc\<close> of
  the receive buffer.\<close>
definition faulty_s :: world where
  "faulty_s = boot_s\<lparr>faults := [False, False, False, True]\<rparr>"

text \<open>The context of the connected server.\<close>
definition srv2_ctx :: mq_ctx where
  "srv2_ctx = \<lparr>mq_wr = 4, mq_rd = 3,
        mq_wr_name = ''/IPC_CLIENT.7'' @ replicate 243 NUL,
        mq_rd_name = ''/IPC_SERVER'' @ replicate 245 NUL, role = IPC_SERVER, sem = 0,
        parent = Some 100\<rparr>"

text \<open>The context of the client in \<open>cli_fire\<close>.\<close>
definition cli_ctx :: mq_ctx where
  "cli_ctx = \<lparr>mq_wr = 4, mq_rd = 3,
        mq_wr_name = ''/IPC_SERVER'' @ replicate 245 NUL,
        mq_rd_name = ''/IPC_CLIENT.7'' @ replicate 243 NUL, role = IPC_CLIENT, sem = 0,
        parent = Some 100\<rparr>"

text \<open>The client of \<open>cli1\<close> with a schedule in which only time passes.\<close>
definition cli_wait :: world where
  "cli_wait = cli1\<lparr>sched := [Elapse 2000000, Elapse 4000000]\<rparr>"

text \<open>The server of \<open>srv1\<close> at the return of \<^verbatim>\<open>sem_wait\<close> in \<^verbatim>\<open>_mq_accept\<close>: the handshake
  handler has stored the client's name and re-armed the notification with \<^verbatim>\<open>on_recv\<close>.\<close>
definition srv_woken :: world where
  "srv_woken = srv1\<lparr>
     mq_objs := [20 \<mapsto> \<lparr>q_msgs = [], q_maxmsg = 5, q_msgsize = 1024, q_notify = None\<rparr>,
                 21 \<mapsto> \<lparr>q_msgs = [], q_maxmsg = 5, q_msgsize = 1024,
                         q_notify = Some (3, On_recv, 10)\<rparr>],
     ctxs := [10 \<mapsto> \<lparr>mq_wr = 0, mq_rd = 3,
        mq_wr_name = ''/IPC_CLIENT.7'' @ replicate 243 NUL,
        mq_rd_name = ''/IPC_SERVER'' @ replicate 245 NUL, role = IPC_SERVER, sem = 0,
        parent = Some 100\<rparr>],
     sched := [],
     trace := trace srv0 @ [C_sem_wait 10, C_mq_notify 3 On_recv 10 0, C_mq_receive 3 1024 13,
        C_sem_post 10]\<rparr>"

text \<open>The connected server with a receive callback (address 77), at rest: its read queue is
  empty and the notification is registered.\<close>
definition srv_conn :: world where
  "srv_conn = srv2\<lparr>mq_recv_cb := Some 77\<rparr>"

text \<open>The same at the start of a notification, as \<open>srv_data\<close>, but a second message,
  \<^verbatim>\<open>world\<close>, has arrived right behind \<^verbatim>\<open>hello\<close>, before the notification function runs.\<close>
definition srv_burst :: world where
  "srv_burst = srv2\<lparr>mq_recv_cb := Some 77,
     mq_objs := [21 \<mapsto> \<lparr>q_msgs = [''hello'', ''world''], q_maxmsg = 5, q_msgsize = 1024,
                         q_notify = None\<rparr>,
                 20 \<mapsto> \<lparr>q_msgs = [''/IPC_CLIENT.7''], q_maxmsg = 5, q_msgsize = 1024,
                         q_notify = None\<rparr>]\<rparr>"

text \<open>The client of \<open>cli1\<close>; after one second of its wait the server's confirmation
  arrives.\<close>
definition cli_confirmed :: world where
  "cli_confirmed = cli1\<lparr>sched := [Elapse 1000000, Arrive ''/IPC_CLIENT.7'' ''/IPC_CLIENT.7'',
     Elapse 9000000]\<rparr>"

text \<open>The same client; a wrong confirmation arrives first, then the right
  one.\<close>
definition cli_mismatch :: world where
  "cli_mismatch = cli1\<lparr>sched := [Arrive ''/IPC_CLIENT.7'' ''/IPC_SERVER'',
     Arrive ''/IPC_CLIENT.7'' ''/IPC_CLIENT.7'', Elapse 6000000]\<rparr>"

text \<open>The same client; a wrong confirmation arrives, then only time passes.\<close>
definition cli_late :: world where
  "cli_late = cli1\<lparr>sched := [Elapse 1000000, Arrive ''/IPC_CLIENT.7'' ''/WRONG'',
     Elapse 2000000, Elapse 3000000]\<rparr>"

text \<open>The context of the client in \<open>cli1\<close>.\<close>
definition cli1_ctx :: mq_ctx where
  "cli1_ctx = \<lparr>mq_wr = 0, mq_rd = 3, mq_wr_name = replicate 256 NUL,
        mq_rd_name = ''/IPC_CLIENT.7'' @ replicate 243 NUL, role = IPC_CLIENT, sem = 0,
        parent = None\<rparr>"

text \<open>An empty queue as \<^verbatim>\<open>_mq_init\<close> creates it, with registration \<open>r\<close>.\<close>
definition empty_queue :: "(int \<times> mq_notify_cb \<times> nat) option \<Rightarrow> mqueue" where
  "empty_queue r = \<lparr>q_msgs = [], q_maxmsg = 5, q_msgsize = 1024, q_notify = r\<rparr>"

section \<open>Proofs\<close>

lemmas env_defs = record_call_def printf_def next_fault_def fails_def zero_ctx_def calloc_ctx_def
  calloc_buf_def free_buf_def free_ctx_def posix_mq_unlink_def new_fd_def posix_mq_open_def
  posix_mq_close_def posix_mq_notify_def posix_mq_receive_def posix_sem_init_def posix_sem_post_def
  posix_sem_destroy_def posix_gettimeofday_def mq_arrive_def fire_def posix_mq_send_def
  posix_sem_wait_def posix_sem_timedwait_def ts_ns_def ts_us_up_def reached_def ts_valid_def
  MQ_MAXMSG_def MQ_MSGSIZE_def MQ_MSG_PRIO_def MAX_MQ_NAME_def NAME_MAX_def PATH_MAX_def
  mq_name_error_def c_str_def strlen_def strncpy_def Let_def

lemmas src_defs = ipc_ctx_def ctx_upd_def mq_recv_def mq_notify_update_def write_buf_def
  on_recv_def on_connect_def mq_send_def mq_init_def mq_set_recv_cb_def mq_accept_def
  timeout_def abs_time_def mq_connect_def mq_deinit_def

lemmas run_defs = boot_s_def srv0_def srv1_def srv2_def srv_data_def srv_empty_def stale_s_def
  boot_c_def cli1_def cli_fire_def junk_confirmation_def faulty_s_def new_calls_def no_fault_def
  fault_next_def armed_def

subsection \<open>The concrete runs are runs of the program\<close>

lemma run_srv_init: "mq_init boot_s ''/IPC_SERVER'' IPC_SERVER = Some (Some 10, srv0)"
  by (simp add: run_defs env_defs src_defs)

lemma run_srv_accept: "mq_accept srv1 (Some 100) = Some (0, srv2)"
  by (simp add: run_defs env_defs src_defs)

lemma run_cli_init:
  "mq_init boot_c ''/IPC_CLIENT.7'' IPC_CLIENT = Some (Some 10, cli1\<lparr>ipcs := ipcs boot_c\<rparr>)"
  by (simp add: run_defs env_defs src_defs)

subsection \<open>Effects of the library calls\<close>




subsection \<open>Teardown\<close>




subsection \<open>Connecting without a server\<close>





lemma next_fault_eq: "next_fault w = (fault_next (faults w), w\<lparr>faults := tl (faults w)\<rparr>)"
  by (simp add: next_fault_def fault_next_def split: list.splits)

lemma strncpy_c_string:
  "strncpy n (name @ [NUL]) = Some (takeWhile (\<lambda>c. c \<noteq> NUL) (take n name)
      @ replicate (n - length (takeWhile (\<lambda>c. c \<noteq> NUL) (take n name))) NUL)"
proof -
  let ?P = "\<lambda>c. c \<noteq> NUL"
  have eq: "takeWhile ?P (take n (name @ [NUL])) = takeWhile ?P (take n name)"
  proof (cases "n \<le> length name")
    case True then show ?thesis by simp
  next
    case False
    then have "take n (name @ [NUL]) = name @ [NUL]" by simp
    moreover have "take n name = name" using False by simp
    moreover have "takeWhile ?P (name @ [NUL]) = takeWhile ?P name"
      by (induction name) auto
    ultimately show ?thesis by simp
  qed
  have "length (takeWhile ?P (take n name)) \<le> length name"
    using length_takeWhile_le[of ?P "take n name"] by simp
  then show ?thesis
    unfolding strncpy_def Let_def eq by simp
qed

lemmas init_defs = mq_init_def calloc_ctx_def next_fault_eq Let_def strncpy_c_string
      mq_notify_update_def ctx_upd_def posix_mq_unlink_def posix_mq_open_def fails_def record_call_def
      new_fd_def posix_sem_init_def calloc_buf_def printf_def posix_mq_notify_def zero_ctx_def
      MQ_MAXMSG_def MQ_MSGSIZE_def

subsection \<open>Initialisation\<close>

text \<open>
  C10: when \<^verbatim>\<open>_mq_init\<close> returns \<^verbatim>\<open>NULL\<close> although its \<^verbatim>\<open>mq_open\<close> has succeeded (a later
  step failed: \<^verbatim>\<open>sem_init\<close>, the allocation of the receive buffer, or arming the
  notification), the queue it created is still there under its name, its descriptor is
  still open, the context is still allocated, and after the \<^verbatim>\<open>mq_open\<close> the function has
  made no \<^verbatim>\<open>mq_close\<close>, no \<^verbatim>\<open>mq_unlink\<close> and no \<^verbatim>\<open>free\<close>.
\<close>
theorem C10_failed_init_leaves_queue:
  assumes r: "mq_init w name rl = Some (None, w')"
    and o: "C_mq_open name [O_RDWR, O_EXCL, O_CREAT, O_NONBLOCK] fd \<in> set (new_calls w w')"
    and fd: "0 \<le> fd"
  shows "mq_names w' name = Some (next_qid w)
      \<and> mq_fds w' fd = Some (next_qid w, [O_RDWR, O_EXCL, O_CREAT, O_NONBLOCK])
      \<and> mq_objs w' (next_qid w) \<noteq> None
      \<and> ctxs w' (next_ptr w) \<noteq> None
      \<and> take 3 (new_calls w w') = [C_calloc (Some (next_ptr w)),
           C_mq_unlink name (if mq_names w name = None then - 1 else 0),
           C_mq_open name [O_RDWR, O_EXCL, O_CREAT, O_NONBLOCK] fd]
      \<and> drop 3 (new_calls w w') \<noteq> []
      \<and> (\<forall>x \<in> set (drop 3 (new_calls w w')). \<not> releases x)"
proof -
  let ?f1 = "fault_next (faults w)"
  let ?f2 = "fault_next (tl (faults w))"
  let ?f3 = "fault_next (tl (tl (faults w)))"
  let ?f4 = "fault_next (tl (tl (tl (faults w))))"
  let ?f5 = "fault_next (tl (tl (tl (tl (faults w)))))"
  let ?ok = "mq_name_error name = None"
  consider (a) "?f1" | (b) er where "\<not> ?f1" "mq_name_error name = Some er"
    | (c) "\<not> ?f1" "?ok" "?f2"
    | (e) "\<not> ?f1" "?ok" "\<not> ?f2" "?f3"
    | (f) "\<not> ?f1" "?ok" "\<not> ?f2" "\<not> ?f3" "?f4"
    | (g) "\<not> ?f1" "?ok" "\<not> ?f2" "\<not> ?f3" "\<not> ?f4" "?f5"
    | (h) "\<not> ?f1" "?ok" "\<not> ?f2" "\<not> ?f3" "\<not> ?f4" "\<not> ?f5"
    by (cases "mq_name_error name") blast+
  then show ?thesis
  proof cases
    case a
    with r[symmetric] o fd show ?thesis
      by (simp add: init_defs new_calls_def)
  next
    case b
    with r[symmetric] o fd show ?thesis
      by (simp add: init_defs new_calls_def split: option.splits)
  next
    case c
    with r[symmetric] o fd show ?thesis
      by (simp add: init_defs new_calls_def split: option.splits)
  next
    case e
    with r[symmetric] o fd show ?thesis
      by (simp add: init_defs new_calls_def split: option.splits)
  next
    case f
    with r[symmetric] o fd show ?thesis
      by (simp add: init_defs new_calls_def split: option.splits)
  next
    case g
    with r[symmetric] o fd show ?thesis
      by (simp add: init_defs new_calls_def split: option.splits)
  next
    case h
    with r[symmetric] o fd show ?thesis
      by (simp add: init_defs new_calls_def split: option.splits)
  qed
qed


theorem C10_failed_init_leaves_queue_witness:
  "mq_init faulty_s ''/IPC_SERVER'' IPC_SERVER \<noteq> None
   \<and> fst (the (mq_init faulty_s ''/IPC_SERVER'' IPC_SERVER)) = None
   \<and> C_mq_open ''/IPC_SERVER'' [O_RDWR, O_EXCL, O_CREAT, O_NONBLOCK] 3
        \<in> set (new_calls faulty_s (snd (the (mq_init faulty_s ''/IPC_SERVER'' IPC_SERVER))))
   \<and> mq_names (snd (the (mq_init faulty_s ''/IPC_SERVER'' IPC_SERVER))) ''/IPC_SERVER'' = Some 21
   \<and> mq_fds (snd (the (mq_init faulty_s ''/IPC_SERVER'' IPC_SERVER))) 3
        = Some (21, [O_RDWR, O_EXCL, O_CREAT, O_NONBLOCK])
   \<and> ctxs (snd (the (mq_init faulty_s ''/IPC_SERVER'' IPC_SERVER))) 10 \<noteq> None"
proof -
  obtain w' where 1: "mq_init faulty_s ''/IPC_SERVER'' IPC_SERVER = Some (None, w')"
    by (simp add: run_defs env_defs src_defs)
  have 2: "C_mq_open ''/IPC_SERVER'' [O_RDWR, O_EXCL, O_CREAT, O_NONBLOCK] 3 \<in> set (new_calls faulty_s w')"
    using 1 by (auto simp add: run_defs env_defs src_defs)
  from C10_failed_init_leaves_queue[OF 1 2] 1 2 show ?thesis
    by (simp add: faulty_s_def boot_s_def)
qed






subsection \<open>Effects of arming and receiving\<close>

lemma armed_printf: "armed (printf s w) f c a = armed w f c a"
  by (simp add: armed_def printf_def record_call_def split: option.splits prod.splits)

lemma posix_mq_notify_eff:
  assumes "posix_mq_notify w fd cb a = (r, w1)"
  shows "trace w1 = trace w @ [C_mq_notify fd cb a r]" "r = 0 \<or> r = - 1"
    "ctxs w1 = ctxs w" "ipcs w1 = ipcs w" "mq_fds w1 = mq_fds w" "mq_recv_cb w1 = mq_recv_cb w"
    "mq_recv_buf w1 = mq_recv_buf w" "bufs w1 = bufs w"
    "MAX_IPC_MESSAGE_SIZE w1 = MAX_IPC_MESSAGE_SIZE w" "mq_names w1 = mq_names w"
    "r = - 1 \<Longrightarrow> mq_objs w1 = mq_objs w" "r = 0 \<Longrightarrow> armed w1 fd cb a"
    "r = 0 \<Longrightarrow> errno w1 = errno w"
  using assms
  by (auto simp: posix_mq_notify_def fails_def record_call_def next_fault_eq armed_def
      split: option.splits prod.splits if_splits)

lemma posix_mq_receive_eff:
  assumes "posix_mq_receive w fd n = Some (r, m, w1)"
  shows "trace w1 = trace w @ [C_mq_receive fd n r]" "r = int (length m) \<or> r = - 1"
    "ctxs w1 = ctxs w" "ipcs w1 = ipcs w" "mq_fds w1 = mq_fds w" "mq_recv_cb w1 = mq_recv_cb w"
    "mq_recv_buf w1 = mq_recv_buf w" "bufs w1 = bufs w"
    "MAX_IPC_MESSAGE_SIZE w1 = MAX_IPC_MESSAGE_SIZE w" "mq_names w1 = mq_names w"
    "r = - 1 \<Longrightarrow> mq_objs w1 = mq_objs w" "r \<noteq> - 1 \<Longrightarrow> errno w1 = errno w"
    "armed w1 f c a = armed w f c a"
  using assms
  by (auto simp: posix_mq_receive_def fails_def record_call_def armed_def Let_def
      split: option.splits prod.splits if_splits list.splits)

lemma mq_recv_eff:
  assumes "mq_recv w ipc n = Some (len, m, w2)"
  shows "\<exists>fd. trace w2 = trace w @ (if len = - 1
            then [C_mq_receive fd n (- 1), C_printf ''mq_receive failed %d: %s'']
            else [C_mq_receive fd n len])"
    "len = int (length m) \<or> len = - 1"
    "ctxs w2 = ctxs w" "ipcs w2 = ipcs w" "mq_fds w2 = mq_fds w" "mq_recv_cb w2 = mq_recv_cb w"
    "mq_recv_buf w2 = mq_recv_buf w" "bufs w2 = bufs w"
    "MAX_IPC_MESSAGE_SIZE w2 = MAX_IPC_MESSAGE_SIZE w" "mq_names w2 = mq_names w"
    "len = - 1 \<Longrightarrow> mq_objs w2 = mq_objs w" "len \<noteq> - 1 \<Longrightarrow> errno w2 = errno w"
    "armed w2 f c a = armed w f c a"
proof -
  from assms obtain p cx where pc: "ipc_ctx w ipc = Some (p, cx)"
    by (auto simp: mq_recv_def split: option.splits)
  from assms pc obtain r m' w1 where R0: "posix_mq_receive w (mq_rd cx) n = Some (r, m', w1)"
    by (auto simp: mq_recv_def split: option.splits)
  from assms pc R0 have mm: "m' = m"
    and res: "(len, w2) = (if r = - 1 then (- 1, printf ''mq_receive failed %d: %s'' w1) else (r, w1))"
    by (auto simp: mq_recv_def split: if_splits)
  from R0 mm have R: "posix_mq_receive w (mq_rd cx) n = Some (r, m, w1)" by simp
  note e = posix_mq_receive_eff[OF R]
  show "\<exists>fd. trace w2 = trace w @ (if len = - 1
            then [C_mq_receive fd n (- 1), C_printf ''mq_receive failed %d: %s'']
            else [C_mq_receive fd n len])"
    using res e(1) by (auto simp: printf_def record_call_def split: if_splits)
  show "len = int (length m) \<or> len = - 1"
    using res e(2) by (auto split: if_splits)
  show "ctxs w2 = ctxs w" "ipcs w2 = ipcs w" "mq_fds w2 = mq_fds w" "mq_recv_cb w2 = mq_recv_cb w"
    "mq_recv_buf w2 = mq_recv_buf w" "bufs w2 = bufs w"
    "MAX_IPC_MESSAGE_SIZE w2 = MAX_IPC_MESSAGE_SIZE w" "mq_names w2 = mq_names w"
    using res e by (auto simp: printf_def record_call_def split: if_splits)
  show "len = - 1 \<Longrightarrow> mq_objs w2 = mq_objs w"
    using res e(11) by (auto simp: printf_def record_call_def split: if_splits)
  show "len \<noteq> - 1 \<Longrightarrow> errno w2 = errno w"
    using res e(12) by (auto simp: printf_def record_call_def split: if_splits)
  show "armed w2 f c a = armed w f c a"
    using res e(13)[of f c a] by (auto simp: armed_printf split: if_splits)
qed

lemma write_buf_eff:
  assumes "write_buf w b m = Some w3"
  shows "trace w3 = trace w" "mq_objs w3 = mq_objs w" "ctxs w3 = ctxs w" "mq_fds w3 = mq_fds w"
    "mq_recv_cb w3 = mq_recv_cb w" "mq_recv_buf w3 = mq_recv_buf w" "errno w3 = errno w"
  using assms by (auto simp: write_buf_def split: option.splits if_splits)

lemma mq_notify_update_eq:
  assumes "ctxs w sv = Some c" and "posix_mq_notify w (mq_rd c) cb sv = (r, w1)"
  shows "mq_notify_update w sv cb =
     Some (if r = - 1 then (- 1, printf ''mq_notify failed %d: %s'' w1) else (0, w1))"
  using assms by (simp add: mq_notify_update_def)

text \<open>What a run of \<^verbatim>\<open>on_recv\<close> that returns has done, by its three outcomes.\<close>
lemma on_recv_result:
  assumes "on_recv w sv = Some w'"
  shows "\<exists>c. ctxs w sv = Some c \<and>
     ((new_calls w w' = [C_mq_notify (mq_rd c) On_recv sv (- 1),
          C_printf ''mq_notify failed %d: %s'', C_printf ''_mq_notify_update failed!'']
        \<and> mq_objs w' = mq_objs w \<and> mq_fds w' = mq_fds w)
    \<or> (\<exists>fd. new_calls w w' = [C_mq_notify (mq_rd c) On_recv sv 0,
          C_mq_receive fd (MAX_IPC_MESSAGE_SIZE w) (- 1),
          C_printf ''mq_receive failed %d: %s'', C_printf ''_mq_recv failed!'']
        \<and> armed w' (mq_rd c) On_recv sv)
    \<or> (\<exists>fd m. new_calls w w' = [C_mq_notify (mq_rd c) On_recv sv 0,
          C_mq_receive fd (MAX_IPC_MESSAGE_SIZE w) (int (length m))]
          @ (case mq_recv_cb w of None \<Rightarrow> []
             | Some f \<Rightarrow> [C_recv_cb f (parent c) (mq_recv_buf w) m (int (length m))])))"
proof -
  from assms obtain c where c: "ctxs w sv = Some c"
    by (auto simp: on_recv_def split: option.splits)
  obtain r w1 where N: "posix_mq_notify w (mq_rd c) On_recv sv = (r, w1)" by fastforce
  note ne = posix_mq_notify_eff[OF N]
  note nu = mq_notify_update_eq[OF c N]
  show ?thesis
  proof (cases "r = - 1")
    case True
    then have "w' = printf ''_mq_notify_update failed!'' (printf ''mq_notify failed %d: %s'' w1)"
      using assms c nu by (simp add: on_recv_def Let_def)
    then show ?thesis
      using c ne True by (simp add: new_calls_def printf_def record_call_def)
  next
    case False
    then have r0: "r = 0" using ne(2) by simp
    from assms c nu r0 obtain len m w2 where
      R: "mq_recv w1 (parent c) (MAX_IPC_MESSAGE_SIZE w1) = Some (len, m, w2)"
      by (auto simp: on_recv_def Let_def split: option.splits)
    note re = mq_recv_eff[OF R]
    from re(1) obtain fd where tr: "trace w2 = trace w1 @ (if len = - 1
            then [C_mq_receive fd (MAX_IPC_MESSAGE_SIZE w1) (- 1), C_printf ''mq_receive failed %d: %s'']
            else [C_mq_receive fd (MAX_IPC_MESSAGE_SIZE w1) len])" by blast
    show ?thesis
    proof (cases "len = - 1")
      case True
      then have "w' = printf ''_mq_recv failed!'' w2"
        using assms c nu r0 R by (simp add: on_recv_def Let_def)
      moreover have "armed w2 (mq_rd c) On_recv sv"
        using re(13)[of "mq_rd c" On_recv sv] ne(12) r0 by simp
      ultimately have "armed w' (mq_rd c) On_recv sv"
        and "trace w' = trace w2 @ [C_printf ''_mq_recv failed!'']"
        by (simp_all add: armed_printf) (simp add: printf_def record_call_def)
      then show ?thesis
        using c ne(1,9) r0 tr True
        by (simp add: new_calls_def)
    next
      case False
      then have len: "len = int (length m)" using re(2) by simp
      from assms c nu r0 R False obtain w3 where
        W: "write_buf w2 (mq_recv_buf w2) m = Some w3"
        and w': "w' = (case mq_recv_cb w3 of None \<Rightarrow> w3
           | Some f \<Rightarrow> record_call (C_recv_cb f (parent c) (mq_recv_buf w3) (take (nat len) m) len) w3)"
        by (auto simp: on_recv_def Let_def split: option.splits)
      note we = write_buf_eff[OF W]
      have cb: "mq_recv_cb w3 = mq_recv_cb w" and bf: "mq_recv_buf w3 = mq_recv_buf w"
        using we re ne by simp_all
      have "new_calls w w' = [C_mq_notify (mq_rd c) On_recv sv 0,
          C_mq_receive fd (MAX_IPC_MESSAGE_SIZE w) (int (length m))]
          @ (case mq_recv_cb w of None \<Rightarrow> []
             | Some f \<Rightarrow> [C_recv_cb f (parent c) (mq_recv_buf w) m (int (length m))])"
        using w' cb bf we(1) tr False len ne(1,9) r0
        by (simp add: new_calls_def record_call_def split: option.splits)
      then show ?thesis using c by blast
    qed
  qed
qed


subsection \<open>Delivery of a message\<close>

lemma next_fault_ok: "no_fault w \<Longrightarrow> next_fault w = (False, w\<lparr>faults := tl (faults w)\<rparr>)"
  by (simp add: next_fault_eq no_fault_def)

text \<open>One run of \<^verbatim>\<open>on_recv\<close> on an endpoint wired as \<^verbatim>\<open>_mq_accept\<close> and \<^verbatim>\<open>_mq_connect\<close> leave
  it, with a message \<open>m\<close> at the head of its read queue, the registration used up and the
  shared receive buffer allocated: it re-arms, receives the head message and nothing more,
  and calls the callback, if there is one, once.\<close>
lemma on_recv_delivers_head:
  assumes c: "ctxs w sv = Some c" and wired: "ipc_ctx w (parent c) = Some (sv, c)"
    and fd: "mq_fds w (mq_rd c) = Some (q, fl)" "O_RDWR \<in> set fl"
    and qo: "mq_objs w q = Some qo" "q_notify qo = None" "q_msgs qo = m # ms"
      "q_msgsize qo \<le> MAX_IPC_MESSAGE_SIZE w"
    and nf: "no_fault w"
    and buf: "mq_recv_buf w = Some b" "bufs w b = Some old" "length m \<le> length old"
  shows "\<exists>w'. on_recv w sv = Some w'
     \<and> new_calls w w' = [C_mq_notify (mq_rd c) On_recv sv 0,
          C_mq_receive (mq_rd c) (MAX_IPC_MESSAGE_SIZE w) (int (length m))]
          @ (case mq_recv_cb w of None \<Rightarrow> []
             | Some f \<Rightarrow> [C_recv_cb f (parent c) (Some b) m (int (length m))])
     \<and> mq_objs w' q = Some (qo\<lparr>q_msgs := ms, q_notify := Some (mq_rd c, On_recv, sv)\<rparr>)
     \<and> bufs w' b = Some (m @ drop (length m) old)
     \<and> mq_recv_cb w' = mq_recv_cb w"
proof -
  from wired obtain i s where i: "parent c = Some i" "ipcs w i = Some s" "ctx s = Some sv"
    by (auto simp: ipc_ctx_def split: option.splits)
  show ?thesis
    using c i fd qo buf
    by (simp add: on_recv_def mq_notify_update_def posix_mq_notify_def next_fault_ok[OF nf]
        mq_recv_def ipc_ctx_def posix_mq_receive_def write_buf_def record_call_def new_calls_def
        Let_def split: option.splits)
qed

lemma ipc_ctx_mq_objs: "ipc_ctx (w\<lparr>mq_objs := x\<rparr>) ipc = ipc_ctx w ipc"
  by (simp add: ipc_ctx_def split: option.splits)

text \<open>
  C8, as the source has it: a message \<open>m\<close> arrives on the read queue of an endpoint in the
  data phase (wired as \<^verbatim>\<open>_mq_accept\<close> and \<^verbatim>\<open>_mq_connect\<close> leave it, the shared receive
  buffer allocated, the notification registered with \<^verbatim>\<open>on_recv\<close> or used up). When the
  queue is empty and the notification is registered, \<^verbatim>\<open>on_recv\<close> runs: it re-arms, makes
  exactly one \<^verbatim>\<open>mq_receive\<close> of \<^verbatim>\<open>MAX_IPC_MESSAGE_SIZE\<close> bytes into the shared buffer, and
  calls the callback, if one is registered, exactly once with the buffer and the length;
  with none registered the message is dropped; the queue is empty and armed again. In
  every other case (the queue is not empty, as when the message comes right behind
  another one that its handler has not received yet, or the registration is used up) no
  function runs: there is no receive and no callback for \<open>m\<close>, and it stays on the queue.
\<close>
theorem C8_arrival_in_connected:
  assumes c: "ctxs w sv = Some c" and wired: "ipc_ctx w (parent c) = Some (sv, c)"
    and fd: "mq_fds w (mq_rd c) = Some (q, fl)" "O_RDWR \<in> set fl"
    and qo: "mq_objs w q = Some qo" "q_msgsize qo \<le> MAX_IPC_MESSAGE_SIZE w"
    and reg: "q_notify qo = None \<or> q_notify qo = Some (mq_rd c, On_recv, sv)"
    and nf: "no_fault w"
    and buf: "mq_recv_buf w = Some b" "bufs w b = Some old" "length m \<le> length old"
  shows "\<exists>w'. mq_arrive w q m = Some w'
     \<and> (if q_msgs qo = [] \<and> q_notify qo = Some (mq_rd c, On_recv, sv)
        then new_calls w w' = [C_mq_notify (mq_rd c) On_recv sv 0,
               C_mq_receive (mq_rd c) (MAX_IPC_MESSAGE_SIZE w) (int (length m))]
               @ (case mq_recv_cb w of None \<Rightarrow> []
                  | Some f \<Rightarrow> [C_recv_cb f (parent c) (Some b) m (int (length m))])
             \<and> mq_objs w' q = Some qo
             \<and> bufs w' b = Some (m @ drop (length m) old)
        else new_calls w w' = []
             \<and> mq_objs w' q = Some (qo\<lparr>q_msgs := q_msgs qo @ [m]\<rparr>)
             \<and> bufs w' = bufs w)
     \<and> mq_recv_cb w' = mq_recv_cb w"
proof (cases "q_msgs qo = [] \<and> q_notify qo = Some (mq_rd c, On_recv, sv)")
  case True
  let ?w = "w\<lparr>mq_objs := (mq_objs w)(q \<mapsto> qo\<lparr>q_msgs := [m], q_notify := None\<rparr>)\<rparr>"
  have a: "mq_arrive w q m = on_recv ?w sv"
    using qo True by (simp add: mq_arrive_def fire_def)
  have h: "ctxs ?w sv = Some c" "ipc_ctx ?w (parent c) = Some (sv, c)"
    "mq_fds ?w (mq_rd c) = Some (q, fl)"
    "mq_objs ?w q = Some (qo\<lparr>q_msgs := [m], q_notify := None\<rparr>)"
    "q_notify (qo\<lparr>q_msgs := [m], q_notify := None\<rparr>) = None"
    "q_msgs (qo\<lparr>q_msgs := [m], q_notify := None\<rparr>) = [m]"
    "q_msgsize (qo\<lparr>q_msgs := [m], q_notify := None\<rparr>) \<le> MAX_IPC_MESSAGE_SIZE ?w"
    "no_fault ?w" "mq_recv_buf ?w = Some b" "bufs ?w b = Some old"
    using c wired fd qo nf buf by (simp_all add: ipc_ctx_mq_objs no_fault_def)
  have q: "qo\<lparr>q_msgs := [], q_notify := Some (mq_rd c, On_recv, sv)\<rparr> = qo"
    using True by simp
  from on_recv_delivers_head[OF h(1,2,3) fd(2) h(4,5,6,7,8,9,10) buf(3)] True q show ?thesis
    by (auto simp: a new_calls_def)
next
  case False
  with qo reg show ?thesis
    by (auto simp: mq_arrive_def new_calls_def)
qed

text \<open>\<^verbatim>\<open>hello\<close> arrives at the server at rest and is delivered; \<^verbatim>\<open>again\<close> arrives on the
  queue that holds a burst and starts nothing.\<close>
theorem C8_arrival_in_connected_witness:
  "(\<exists>w'. mq_arrive srv_conn 21 ''hello'' = Some w'
     \<and> new_calls srv_conn w' = [C_mq_notify 3 On_recv 10 0, C_mq_receive 3 1024 5,
          C_recv_cb 77 (Some 100) (Some 11) ''hello'' 5]
     \<and> map_option q_msgs (mq_objs w' 21) = Some []
     \<and> bufs w' 11 = Some (''hello'' @ replicate 1019 NUL))
   \<and> (\<exists>w'. mq_arrive srv_burst 21 ''again'' = Some w'
     \<and> new_calls srv_burst w' = []
     \<and> map_option q_msgs (mq_objs w' 21) = Some [''hello'', ''world'', ''again''])"
proof -
  let ?qo = "\<lparr>q_msgs = [], q_maxmsg = 5, q_msgsize = 1024, q_notify = Some (3, On_recv, 10)\<rparr>"
  let ?qb = "\<lparr>q_msgs = [''hello'', ''world''], q_maxmsg = 5, q_msgsize = 1024,
              q_notify = None\<rparr>"
  have a: "ctxs srv_conn 10 = Some srv2_ctx" "ipc_ctx srv_conn (parent srv2_ctx) = Some (10, srv2_ctx)"
    "mq_fds srv_conn (mq_rd srv2_ctx) = Some (21, [O_RDWR, O_EXCL, O_CREAT, O_NONBLOCK])"
    "O_RDWR \<in> set [O_RDWR, O_EXCL, O_CREAT, O_NONBLOCK]"
    "mq_objs srv_conn 21 = Some ?qo" "q_msgsize ?qo \<le> MAX_IPC_MESSAGE_SIZE srv_conn"
    "q_notify ?qo = None \<or> q_notify ?qo = Some (mq_rd srv2_ctx, On_recv, 10)"
    "no_fault srv_conn" "mq_recv_buf srv_conn = Some 11"
    "bufs srv_conn 11 = Some (replicate 1024 NUL)"
    "length ''hello'' \<le> length (replicate 1024 NUL :: string)"
    by (simp_all add: srv_conn_def run_defs srv2_ctx_def ipc_ctx_def)
  have b: "ctxs srv_burst 10 = Some srv2_ctx" "ipc_ctx srv_burst (parent srv2_ctx) = Some (10, srv2_ctx)"
    "mq_fds srv_burst (mq_rd srv2_ctx) = Some (21, [O_RDWR, O_EXCL, O_CREAT, O_NONBLOCK])"
    "O_RDWR \<in> set [O_RDWR, O_EXCL, O_CREAT, O_NONBLOCK]"
    "mq_objs srv_burst 21 = Some ?qb" "q_msgsize ?qb \<le> MAX_IPC_MESSAGE_SIZE srv_burst"
    "q_notify ?qb = None \<or> q_notify ?qb = Some (mq_rd srv2_ctx, On_recv, 10)"
    "no_fault srv_burst" "mq_recv_buf srv_burst = Some 11"
    "bufs srv_burst 11 = Some (replicate 1024 NUL)"
    "length ''again'' \<le> length (replicate 1024 NUL :: string)"
    by (simp_all add: srv_burst_def run_defs srv2_ctx_def ipc_ctx_def)
  from C8_arrival_in_connected[OF a] C8_arrival_in_connected[OF b] show ?thesis
    by (auto simp: srv_conn_def srv_burst_def run_defs srv2_ctx_def)
qed

text \<open>The notification function run for \<^verbatim>\<open>hello\<close> receives \<^verbatim>\<open>hello\<close> only and re-arms;
  \<^verbatim>\<open>world\<close> stays on the queue, which is therefore not empty, so that a later message
  starts no function either: neither is received, neither reaches the callback.\<close>
theorem C8_counterexample:
  "\<exists>w1 w2. on_recv srv_burst 10 = Some w1
     \<and> new_calls srv_burst w1 = [C_mq_notify 3 On_recv 10 0, C_mq_receive 3 1024 5,
          C_recv_cb 77 (Some 100) (Some 11) ''hello'' 5]
     \<and> map_option q_msgs (mq_objs w1 21) = Some [''world'']
     \<and> armed w1 3 On_recv 10
     \<and> mq_arrive w1 21 ''again'' = Some w2
     \<and> new_calls w1 w2 = []
     \<and> map_option q_msgs (mq_objs w2 21) = Some [''world'', ''again'']"
  by (simp add: srv_burst_def run_defs env_defs src_defs)

subsection \<open>The receive callback\<close>

lemma register_all_snoc:
  "register_all (rs @ [(ipc, cb)]) w = (register_all rs w)\<lparr>mq_recv_cb := cb\<rparr>"
  by (simp add: register_all_def mq_set_recv_cb_def)

text \<open>
  C9: after any sequence of registrations the callback is the argument of the last one;
  registering the same callback twice is registering it once; the endpoint named in a
  registration is immaterial, the callback being one variable of the process; and a
  notification on any endpoint \<open>sv\<close> calls no other callback than the one registered last,
  whichever endpoint it was registered on.
\<close>
theorem C9_register_last_writer_wins:
  "mq_recv_cb (register_all (rs @ [(ipc, cb)]) w) = cb
   \<and> register_all [(ipc, cb), (ipc', cb)] w = register_all [(ipc, cb)] w
   \<and> mq_set_recv_cb w ipc cb = mq_set_recv_cb w ipc' cb
   \<and> (on_recv (snd (mq_set_recv_cb w ipc cb)) sv = Some w' \<longrightarrow>
        C_recv_cb f a b m l \<in> set (new_calls (snd (mq_set_recv_cb w ipc cb)) w') \<longrightarrow>
        cb = Some f)"
proof -
  have "on_recv (w\<lparr>mq_recv_cb := cb\<rparr>) sv = Some w' \<Longrightarrow>
        C_recv_cb f a b m l \<in> set (new_calls (w\<lparr>mq_recv_cb := cb\<rparr>) w') \<Longrightarrow> cb = Some f"
    by (drule on_recv_result) (auto split: option.splits)
  then show ?thesis
    by (simp add: register_all_snoc) (simp add: register_all_def mq_set_recv_cb_def)
qed

theorem C9_register_last_writer_wins_witness:
  "on_recv (snd (mq_set_recv_cb srv_data (Some 555) (Some 88))) 10 \<noteq> None
   \<and> C_recv_cb 88 (Some 100) (Some 11) ''hello'' 5
       \<in> set (new_calls (snd (mq_set_recv_cb srv_data (Some 555) (Some 88)))
           (the (on_recv (snd (mq_set_recv_cb srv_data (Some 555) (Some 88))) 10)))"
proof -
  obtain w' where 1: "on_recv (snd (mq_set_recv_cb srv_data (Some 555) (Some 88))) 10 = Some w'"
    by (simp add: run_defs env_defs src_defs)
  have "\<exists>f. C_recv_cb f (Some 100) (Some 11) ''hello'' 5
       \<in> set (new_calls (snd (mq_set_recv_cb srv_data (Some 555) (Some 88))) w')"
    using 1 by (auto simp add: run_defs env_defs src_defs)
  then obtain f where 2: "C_recv_cb f (Some 100) (Some 11) ''hello'' 5
       \<in> set (new_calls (snd (mq_set_recv_cb srv_data (Some 555) (Some 88))) w')" ..
  from C9_register_last_writer_wins[of "[]" "Some 555" "Some 88" srv_data "Some 555" 10 w' f "Some 100" "Some 11" "''hello''" 5] 1 2
  show ?thesis by simp
qed

subsection \<open>The notification functions re-arm first\<close>

lemma on_connect_result:
  assumes "on_connect w sv = Some w'"
  shows "\<exists>c. ctxs w sv = Some c \<and>
     ((new_calls w w' = [C_mq_notify (mq_rd c) On_recv sv (- 1),
          C_printf ''mq_notify failed %d: %s'', C_printf ''_mq_notify_update failed!'']
        \<and> mq_objs w' = mq_objs w \<and> mq_fds w' = mq_fds w)
    \<or> (\<exists>fd. new_calls w w' = [C_mq_notify (mq_rd c) On_recv sv 0,
          C_mq_receive fd (MAX_IPC_MESSAGE_SIZE w) (- 1),
          C_printf ''mq_receive failed %d: %s'', C_printf ''_mq_recv failed!'']
        \<and> armed w' (mq_rd c) On_recv sv)
    \<or> (\<exists>fd len x. new_calls w w' = [C_mq_notify (mq_rd c) On_recv sv 0,
          C_mq_receive fd (MAX_IPC_MESSAGE_SIZE w) len, x] \<and> len \<noteq> - 1
          \<and> \<not> notify_or_receive x))"
proof -
  from assms obtain c where c: "ctxs w sv = Some c"
    by (auto simp: on_connect_def split: option.splits)
  obtain r w1 where N: "posix_mq_notify w (mq_rd c) On_recv sv = (r, w1)" by fastforce
  note ne = posix_mq_notify_eff[OF N]
  note nu = mq_notify_update_eq[OF c N]
  show ?thesis
  proof (cases "r = - 1")
    case True
    then have "w' = printf ''_mq_notify_update failed!'' (printf ''mq_notify failed %d: %s'' w1)"
      using assms c nu by (simp add: on_connect_def Let_def)
    then show ?thesis
      using c ne True by (simp add: new_calls_def printf_def record_call_def)
  next
    case False
    then have r0: "r = 0" using ne(2) by simp
    from assms c nu r0 obtain len m w2 where
      R: "mq_recv w1 (parent c) (MAX_IPC_MESSAGE_SIZE w1) = Some (len, m, w2)"
      by (auto simp: on_connect_def Let_def split: option.splits)
    note re = mq_recv_eff[OF R]
    from re(1) obtain fd where tr: "trace w2 = trace w1 @ (if len = - 1
            then [C_mq_receive fd (MAX_IPC_MESSAGE_SIZE w1) (- 1), C_printf ''mq_receive failed %d: %s'']
            else [C_mq_receive fd (MAX_IPC_MESSAGE_SIZE w1) len])" by blast
    show ?thesis
    proof (cases "len = - 1")
      case True
      then have "w' = printf ''_mq_recv failed!'' w2"
        using assms c nu r0 R by (simp add: on_connect_def Let_def)
      moreover have "armed w2 (mq_rd c) On_recv sv"
        using re(13)[of "mq_rd c" On_recv sv] ne(12) r0 by simp
      ultimately have "armed w' (mq_rd c) On_recv sv"
        and "trace w' = trace w2 @ [C_printf ''_mq_recv failed!'']"
        by (simp_all add: armed_printf) (simp add: printf_def record_call_def)
      then show ?thesis
        using c ne(1,9) r0 tr True
        by (simp add: new_calls_def)
    next
      case False
      from assms c nu r0 R have "\<exists>x. trace w' = trace w2 @ [x] \<and> \<not> notify_or_receive x"
        by (auto simp: on_connect_def Let_def posix_sem_post_def ctx_upd_def printf_def
            record_call_def split: option.splits if_splits)
      then obtain x where "trace w' = trace w2 @ [x]" "\<not> notify_or_receive x" by blast
      then have "new_calls w w' = [C_mq_notify (mq_rd c) On_recv sv 0,
          C_mq_receive fd (MAX_IPC_MESSAGE_SIZE w) len, x] \<and> len \<noteq> - 1 \<and> \<not> notify_or_receive x"
        using tr False ne(1,9) r0 by (simp add: new_calls_def)
      then show ?thesis using c by blast
    qed
  qed
qed

text \<open>
  C6, as the source has it: in every run of a notification function that returns
  (\<^verbatim>\<open>on_connect\<close> in the handshake, \<^verbatim>\<open>on_recv\<close> after it) the first call is the \<^verbatim>\<open>mq_notify\<close>
  that re-arms with \<^verbatim>\<open>on_recv\<close>, and there is no second one. When the re-arm fails,
  the function logs and returns without a receive and the registrations are as they
  were. When it succeeds, the very next call is the one \<^verbatim>\<open>mq_receive\<close>; when that fails,
  the function logs and returns, and the registration just renewed is in place.
\<close>
theorem C6_rearm_before_receive:
  assumes "fire w cb sv = Some w'"
  shows "\<exists>c r rest. ctxs w sv = Some c
     \<and> new_calls w w' = C_mq_notify (mq_rd c) On_recv sv r # rest
     \<and> (r = - 1 \<longrightarrow> rest = [C_printf ''mq_notify failed %d: %s'',
            C_printf ''_mq_notify_update failed!'']
          \<and> mq_objs w' = mq_objs w \<and> mq_fds w' = mq_fds w)
     \<and> (r \<noteq> - 1 \<longrightarrow> (\<exists>fd len rest'.
            rest = C_mq_receive fd (MAX_IPC_MESSAGE_SIZE w) len # rest'
          \<and> (\<forall>x \<in> set rest'. \<not> notify_or_receive x)
          \<and> (len = - 1 \<longrightarrow> rest' = [C_printf ''mq_receive failed %d: %s'',
                 C_printf ''_mq_recv failed!'']
               \<and> armed w' (mq_rd c) On_recv sv)))"
proof (cases cb)
  case On_connect
  with assms have "on_connect w sv = Some w'" by (simp add: fire_def)
  from on_connect_result[OF this] show ?thesis
    by (elim exE conjE disjE) (rule exI, force)+
next
  case On_recv
  with assms have "on_recv w sv = Some w'" by (simp add: fire_def)
  from on_recv_result[OF this] show ?thesis
    by (elim exE conjE disjE) (rule exI, force split: option.splits)+
qed


theorem C6_rearm_before_receive_witness:
  "\<exists>w'. fire srv_empty On_recv 10 = Some w'
     \<and> new_calls srv_empty w' = [C_mq_notify 3 On_recv 10 0, C_mq_receive 3 1024 (- 1),
          C_printf ''mq_receive failed %d: %s'', C_printf ''_mq_recv failed!'']
     \<and> armed w' 3 On_recv 10"
proof -
  obtain w' where 1: "fire srv_empty On_recv 10 = Some w'"
    and 2: "new_calls srv_empty w' = [C_mq_notify 3 On_recv 10 0, C_mq_receive 3 1024 (- 1),
          C_printf ''mq_receive failed %d: %s'', C_printf ''_mq_recv failed!'']"
    by (simp add: run_defs env_defs src_defs)
  have 3: "ctxs srv_empty 10 = Some srv2_ctx"
    by (simp add: run_defs srv2_ctx_def)
  from C6_rearm_before_receive[OF 1] 1 2 3 show ?thesis
    by (auto simp: srv2_ctx_def)
qed

text \<open>
  C6 as stated fails where the receive fails: the application has taken the message
  with a direct \<^verbatim>\<open>recv\<close> before \<^verbatim>\<open>on_recv\<close> runs, \<^verbatim>\<open>mq_receive\<close> finds the queue empty,
  the function logs and returns, and the registration it renewed first is in place: the
  next message is delivered to the callback.
\<close>
theorem C6_counterexample:
  "on_recv srv_empty 10 \<noteq> None
   \<and> new_calls srv_empty (the (on_recv srv_empty 10)) =
        [C_mq_notify 3 On_recv 10 0, C_mq_receive 3 1024 (- 1),
         C_printf ''mq_receive failed %d: %s'', C_printf ''_mq_recv failed!'']
   \<and> armed (the (on_recv srv_empty 10)) 3 On_recv 10
   \<and> env_step (the (on_recv srv_empty 10)) (Arrive ''/IPC_SERVER'' ''hello'') \<noteq> None
   \<and> new_calls (the (on_recv srv_empty 10))
        (the (env_step (the (on_recv srv_empty 10)) (Arrive ''/IPC_SERVER'' ''hello''))) =
        [C_mq_notify 3 On_recv 10 0, C_mq_receive 3 1024 5,
         C_recv_cb 77 (Some 100) (Some 11) ''hello'' 5]"
  by (simp add: run_defs env_defs src_defs)

subsection \<open>The client's check of the confirmation\<close>

lemma takeWhile_pad:
  "takeWhile (\<lambda>c. c \<noteq> NUL) (m @ replicate k NUL) = takeWhile (\<lambda>c. c \<noteq> NUL) m"
  by (induction m) auto

lemma strcmp_c_str:
  "c_str b = Some t \<Longrightarrow> length t < length a \<Longrightarrow>
   \<exists>v. strcmp a b = Some v \<and> (v = 0 \<longleftrightarrow> takeWhile (\<lambda>c. c \<noteq> NUL) a = t)"
proof (induction a b arbitrary: t rule: strcmp.induct)
  case (1 uu)
  then show ?case by simp
next
  case (2 v va)
  then show ?case by (simp add: c_str_def)
next
  case (3 x as y bs)
  show ?case
  proof (cases "x = y")
    case False
    with 3(2) show ?thesis
      by (auto simp: c_str_def split: if_splits)
  next
    case True
    show ?thesis
    proof (cases "x = NUL")
      case True
      with \<open>x = y\<close> 3(2) show ?thesis by (auto simp: c_str_def split: if_splits)
    next
      case False
      with \<open>x = y\<close> 3(2) obtain t' where t': "t = y # t'" "c_str bs = Some t'"
        by (auto simp: c_str_def split: if_splits)
      with 3(3) have "length t' < length as" by simp
      moreover have "\<not> x \<noteq> y" using \<open>x = y\<close> by simp
      ultimately show ?thesis
        using "3.IH"[of t'] False \<open>x = y\<close> t' by auto
    qed
  qed
qed

lemma strcmp_eval:
  "0 < n \<Longrightarrow> strcmp (replicate n a) bs = strcmp (a # replicate (n - 1) a) bs"
  "0 < n \<Longrightarrow> strcmp (a # as) (replicate n b) = strcmp (a # as) (b # replicate (n - 1) b)"
  by (cases n; simp)+

text \<open>One run of the client's \<^verbatim>\<open>on_connect\<close> on an endpoint wired as \<^verbatim>\<open>_mq_connect\<close> leaves
  it, with a non-empty message \<open>m\<close> at the head of its read queue: it signals the gate if
  and only if \<open>m\<close> read as a C string is the client's own read-queue name; otherwise it
  only logs.\<close>
lemma on_connect_checks_confirmation:
  assumes c: "ctxs w sv = Some c" "role c = IPC_CLIENT"
    and wired: "ipc_ctx w (parent c) = Some (sv, c)"
    and fd: "mq_fds w (mq_rd c) = Some (q, fl)" "O_RDWR \<in> set fl"
    and qo: "mq_objs w q = Some qo" "q_notify qo = None" "q_msgs qo = m # ms"
      "q_msgsize qo \<le> MAX_IPC_MESSAGE_SIZE w"
    and m: "m \<noteq> []"
    and nf: "no_fault w"
    and nm: "c_str (mq_rd_name c) = Some nm" "length nm < MAX_IPC_MESSAGE_SIZE w"
  shows "\<exists>w'. on_connect w sv = Some w'
     \<and> (if takeWhile (\<lambda>x. x \<noteq> NUL) m = nm
        then new_calls w w' = [C_mq_notify (mq_rd c) On_recv sv 0,
               C_mq_receive (mq_rd c) (MAX_IPC_MESSAGE_SIZE w) (int (length m)), C_sem_post sv]
             \<and> ctxs w' = (ctxs w)(sv \<mapsto> c\<lparr>sem := sem c + 1\<rparr>)
        else new_calls w w' = [C_mq_notify (mq_rd c) On_recv sv 0,
               C_mq_receive (mq_rd c) (MAX_IPC_MESSAGE_SIZE w) (int (length m)),
               C_printf ''connect response check failed!'']
             \<and> ctxs w' = ctxs w \<and> errno w' = errno w)"
proof -
  let ?buf = "m @ replicate (MAX_IPC_MESSAGE_SIZE w - length m) NUL"
  from wired obtain i s where i: "parent c = Some i" "ipcs w i = Some s" "ctx s = Some sv"
    by (auto simp: ipc_ctx_def split: option.splits)
  have "length nm < length ?buf" using nm(2) by simp
  from strcmp_c_str[OF nm(1) this] obtain v where
    v: "strcmp ?buf (mq_rd_name c) = Some v" "v = 0 \<longleftrightarrow> takeWhile (\<lambda>c. c \<noteq> NUL) m = nm"
    by (auto simp: takeWhile_pad)
  show ?thesis
    using c i fd qo m v
    by (simp add: on_connect_def mq_notify_update_def posix_mq_notify_def next_fault_ok[OF nf]
        mq_recv_def ipc_ctx_def posix_mq_receive_def posix_sem_post_def printf_def record_call_def
        new_calls_def Let_def split: option.splits)
qed

subsection \<open>Strings and machine integers\<close>

lemma sint_of_nat32: "n < 2 ^ 31 \<Longrightarrow> sint (word_of_nat n :: 32 word) = int n"
proof -
  assume n: "n < 2 ^ 31"
  then have "int n < 2 ^ 31" by (metis of_nat_less_iff of_nat_numeral of_nat_power)
  have "(word_of_nat n :: 32 word) = word_of_int (int n)" by simp
  then have "sint (word_of_nat n :: 32 word) = signed_take_bit 31 (int n)"
    by (simp only: sint_sbintrunc') simp
  also have "\<dots> = int n"
    using \<open>int n < 2 ^ 31\<close> by (intro signed_take_bit_int_eq_self) simp_all
  finally show ?thesis .
qed

lemma c_str_take: "c_str a = Some s \<Longrightarrow> take (length s) a = s \<and> length s \<le> length a"
  by (auto simp: c_str_def takeWhile_eq_take[symmetric] length_takeWhile_le split: if_splits)


subsection \<open>The server's confirmation\<close>

lemma takeWhile_shorter: "x \<in> set a \<Longrightarrow> length (takeWhile (\<lambda>c. c \<noteq> x) a) < length a"
  by (induction a) auto

lemma c_str_shorter: "c_str a = Some s \<Longrightarrow> length s < length a"
  using takeWhile_shorter[of NUL a] by (auto simp: c_str_def split: if_splits)

lemma acc_open:
  assumes len: "mq_name_error nm = None"
    and cq: "mq_names w2 nm = Some q"
    and nf: "no_fault w2"
  shows "posix_mq_open w2 nm [O_WRONLY] (MQ_MAXMSG, MQ_MSGSIZE) =
      (int (next_fd w2), w2\<lparr>faults := tl (faults w2),
         mq_fds := (mq_fds w2)(int (next_fd w2) \<mapsto> (q, [O_WRONLY])), next_fd := next_fd w2 + 1,
         trace := trace w2 @ [C_mq_open nm [O_WRONLY] (int (next_fd w2))]\<rparr>)"
  using len cq nf[unfolded no_fault_def]
  by (simp add: posix_mq_open_def next_fault_eq new_fd_def record_call_def Let_def)

lemma takeWhile_take: "length (takeWhile P xs) < n \<Longrightarrow> takeWhile P (take n xs) = takeWhile P xs"
proof (induction xs arbitrary: n)
  case Nil then show ?case by simp
next
  case (Cons x xs)
  then show ?case by (cases n) (auto split: if_splits)
qed

lemma strncpy_array:
  assumes "n \<le> length src"
  shows "strncpy n src = Some (takeWhile (\<lambda>c. c \<noteq> NUL) (take n src)
      @ replicate (n - length (takeWhile (\<lambda>c. c \<noteq> NUL) (take n src))) NUL)"
  using assms by (auto simp: strncpy_def Let_def)

lemma c_str_padded:
  assumes "0 < k"
  shows "c_str (takeWhile (\<lambda>c. c \<noteq> NUL) xs @ replicate k NUL) = Some (takeWhile (\<lambda>c. c \<noteq> NUL) xs)"
proof -
  have "takeWhile (\<lambda>c. c \<noteq> NUL) (takeWhile (\<lambda>c. c \<noteq> NUL) xs @ replicate k NUL)
      = takeWhile (\<lambda>c. c \<noteq> NUL) (takeWhile (\<lambda>c. c \<noteq> NUL) xs)"
    by (rule takeWhile_pad)
  then show ?thesis using assms by (simp add: c_str_def)
qed

lemma on_connect_stores_peer_name:
  assumes c: "ctxs w sv = Some c" "role c = IPC_SERVER"
    and wired: "ipc_ctx w (parent c) = Some (sv, c)"
    and fd: "mq_fds w (mq_rd c) = Some (q, fl)" "O_RDWR \<in> set fl"
    and qo: "mq_objs w q = Some qo" "q_notify qo = None" "q_msgs qo = m # ms"
      "q_msgsize qo \<le> MAX_IPC_MESSAGE_SIZE w"
    and m: "m \<noteq> []"
    and nf: "no_fault w"
    and sz: "MAX_MQ_NAME \<le> MAX_IPC_MESSAGE_SIZE w"
    and nm: "length (takeWhile (\<lambda>x. x \<noteq> NUL) m) < MAX_MQ_NAME"
  shows "\<exists>w' a. on_connect w sv = Some w'
     \<and> ctxs w' = (ctxs w)(sv \<mapsto> c\<lparr>mq_wr_name := a, sem := sem c + 1\<rparr>)
     \<and> length a = MAX_MQ_NAME \<and> c_str a = Some (takeWhile (\<lambda>x. x \<noteq> NUL) m)"
proof -
  let ?P = "\<lambda>x. x \<noteq> NUL"
  let ?buf = "m @ replicate (MAX_IPC_MESSAGE_SIZE w - length m) NUL"
  let ?a = "takeWhile ?P m @ replicate (MAX_MQ_NAME - length (takeWhile ?P m)) NUL"
  from wired obtain i s where i: "parent c = Some i" "ipcs w i = Some s" "ctx s = Some sv"
    by (auto simp: ipc_ctx_def split: option.splits)
  have tw: "takeWhile ?P (take MAX_MQ_NAME ?buf) = takeWhile ?P m"
    using takeWhile_take[of ?P ?buf MAX_MQ_NAME] nm by (simp add: takeWhile_pad)
  have "MAX_MQ_NAME \<le> length ?buf" using sz by simp
  from strncpy_array[OF this] have sn: "strncpy MAX_MQ_NAME ?buf = Some ?a"
    unfolding tw .
  have a: "length ?a = MAX_MQ_NAME" "c_str ?a = Some (takeWhile ?P m)"
    using nm by (simp_all add: c_str_padded)
  have "\<exists>w'. on_connect w sv = Some w'
     \<and> ctxs w' = (ctxs w)(sv \<mapsto> c\<lparr>mq_wr_name := ?a, sem := sem c + 1\<rparr>)"
    using c i fd qo m sn
    by (simp add: on_connect_def mq_notify_update_def posix_mq_notify_def next_fault_ok[OF nf]
        mq_recv_def ipc_ctx_def posix_mq_receive_def posix_sem_post_def printf_def record_call_def
        ctx_upd_def Let_def split: option.splits)
  with a show ?thesis by blast
qed

text \<open>
  C1, as the source has it: \<^verbatim>\<open>sem_wait\<close> has returned in \<^verbatim>\<open>_mq_accept\<close> (world \<open>w2\<close>),
  and \<^verbatim>\<open>ctx->mq_wr_name\<close> holds the name \<open>nm\<close>, which \<^verbatim>\<open>on_connect\<close> copied there from the
  client's first message (lemma \<open>on_connect_stores_peer_name\<close>). The queue of that name
  exists and has room, and the open does not fail for lack of resources. Then, \<open>nm\<close>
  being well formed as the name of a queue is, \<^verbatim>\<open>_mq_accept\<close> returns 0 after exactly two
  calls: it opens the queue \<open>nm\<close> write-only and sends on it, as the confirmation, the
  \<^verbatim>\<open>strlen\<close> bytes of \<^verbatim>\<open>ctx->mq_wr_name\<close>, that is \<open>nm\<close> itself: the client's queue name,
  not the server's read-queue name \<^verbatim>\<open>ctx->mq_rd_name\<close>. (Were \<open>nm\<close> not well formed,
  \<^verbatim>\<open>mq_open\<close> would refuse it and \<^verbatim>\<open>_mq_accept\<close> would log and return -1, having sent
  nothing.)
\<close>
theorem C1_accept_confirms_with_peer_name:
  assumes e: "ipc_ctx w ipc = Some (p, c0)"
    and wake: "posix_sem_wait (ctx_upd p (\<lambda>c. c\<lparr>parent := ipc\<rparr>) w) p = Some w2"
    and c: "ipc_ctx w2 ipc = Some (p, c)" "length (mq_wr_name c) = MAX_MQ_NAME"
    and nm: "c_str (mq_wr_name c) = Some nm"
    and cq: "mq_names w2 nm = Some q" "mq_objs w2 q = Some qo"
    and room: "length nm \<le> q_msgsize qo" "length (q_msgs qo) < q_maxmsg qo" "q_notify qo = None"
    and nf: "no_fault w2"
  shows "\<exists>w'. mq_accept w ipc = Some (if mq_name_error nm = None then 0 else - 1, w')
     \<and> (if mq_name_error nm = None
        then new_calls w2 w' = [C_mq_open nm [O_WRONLY] (int (next_fd w2)),
               C_mq_send (int (next_fd w2)) nm MQ_MSG_PRIO 0]
             \<and> mq_objs w' q = Some (qo\<lparr>q_msgs := q_msgs qo @ [nm]\<rparr>)
        else new_calls w2 w' = [C_mq_open nm [O_WRONLY] (- 1),
               C_printf ''mq_open %s failed: %d:%s'']
             \<and> errno w' = mq_name_error nm \<and> mq_objs w' = mq_objs w2)"
proof (cases "mq_name_error nm")
  case (Some er)
  from c(1) have i: "ctxs w2 p = Some c"
    by (auto simp: ipc_ctx_def split: option.splits)
  show ?thesis
    using e wake i nm Some
    by (simp add: mq_accept_def posix_mq_open_def fails_def ctx_upd_def record_call_def
        printf_def new_calls_def)
next
  case None
  from c(1) obtain i s where i: "ipc = Some i" "ipcs w2 i = Some s" "ctx s = Some p"
      "ctxs w2 p = Some c"
    by (auto simp: ipc_ctx_def split: option.splits)
  note ct = c_str_take[OF nm]
  have len: "length nm < 2 ^ 31"
    using c_str_shorter[OF nm] c(2) by (simp_all add: MAX_MQ_NAME_def)
  have sl: "strlen (mq_wr_name c) = Some (length nm)"
    using nm by (simp add: strlen_def)
  note s32 = sint_of_nat32[OF len]
  note op = acc_open[OF None cq(1) nf]
  have acc: "mq_accept w ipc =
      (case mq_send (ctx_upd p (\<lambda>c. c\<lparr>mq_wr := int (next_fd w2)\<rparr>)
           (w2\<lparr>faults := tl (faults w2),
              mq_fds := (mq_fds w2)(int (next_fd w2) \<mapsto> (q, [O_WRONLY])),
              next_fd := next_fd w2 + 1,
              trace := trace w2 @ [C_mq_open nm [O_WRONLY] (int (next_fd w2))]\<rparr>))
           ipc (mq_wr_name c) (length nm) of None \<Rightarrow> None
       | Some (r, w5) \<Rightarrow>
           if 0 > r then Some (-1, printf ''_mq_send failed!'' w5) else Some (0, w5))"
    using e wake i(4) nm sl by (simp add: mq_accept_def op)
  show ?thesis
    unfolding acc
    using None i cq(2) room ct s32
    by (simp add: ipc_ctx_def ctx_upd_def record_call_def mq_send_def new_calls_def
        posix_mq_send_def mq_arrive_def Let_def)
qed

text \<open>The server of \<open>srv1\<close> accepts the client \<^verbatim>\<open>/IPC_CLIENT.7\<close>; \<open>srv_woken\<close> is the world
  when \<^verbatim>\<open>sem_wait\<close> returns.\<close>
theorem C1_accept_confirms_with_peer_name_witness:
  "posix_sem_wait (ctx_upd 10 (\<lambda>c. c\<lparr>parent := Some 100\<rparr>) srv1) 10 = Some srv_woken
   \<and> (\<exists>w'. mq_accept srv1 (Some 100) = Some (0, w')
     \<and> new_calls srv_woken w' = [C_mq_open ''/IPC_CLIENT.7'' [O_WRONLY] 4,
          C_mq_send 4 ''/IPC_CLIENT.7'' 10 0]
     \<and> mq_objs w' 20 = Some \<lparr>q_msgs = [''/IPC_CLIENT.7''], q_maxmsg = 5, q_msgsize = 1024,
          q_notify = None\<rparr>)"
proof -
  let ?ci = "\<lparr>mq_wr = 0, mq_rd = 3, mq_wr_name = replicate 256 NUL,
        mq_rd_name = ''/IPC_SERVER'' @ replicate 245 NUL, role = IPC_SERVER, sem = 0,
        parent = None\<rparr>"
  let ?c = "\<lparr>mq_wr = 0, mq_rd = 3, mq_wr_name = ''/IPC_CLIENT.7'' @ replicate 243 NUL,
        mq_rd_name = ''/IPC_SERVER'' @ replicate 245 NUL, role = IPC_SERVER, sem = 0,
        parent = Some 100\<rparr>"
  let ?qo = "\<lparr>q_msgs = [], q_maxmsg = 5, q_msgsize = 1024, q_notify = None\<rparr>"
  have e: "ipc_ctx srv1 (Some 100) = Some (10, ?ci)"
    by (simp add: run_defs ipc_ctx_def)
  have wake: "posix_sem_wait (ctx_upd 10 (\<lambda>c. c\<lparr>parent := Some 100\<rparr>) srv1) 10 = Some srv_woken"
    by (simp add: srv_woken_def run_defs env_defs src_defs)
  have h: "ipc_ctx srv_woken (Some 100) = Some (10, ?c)" "length (mq_wr_name ?c) = MAX_MQ_NAME"
      "c_str (mq_wr_name ?c) = Some ''/IPC_CLIENT.7''"
      "mq_names srv_woken ''/IPC_CLIENT.7'' = Some 20" "mq_objs srv_woken 20 = Some ?qo"
      "length ''/IPC_CLIENT.7'' \<le> q_msgsize ?qo" "length (q_msgs ?qo) < q_maxmsg ?qo"
      "q_notify ?qo = None" "no_fault srv_woken"
    by (simp_all add: srv_woken_def run_defs ipc_ctx_def c_str_def MAX_MQ_NAME_def)
  have ok: "mq_name_error ''/IPC_CLIENT.7'' = None"
    by (simp add: mq_name_error_def NAME_MAX_def PATH_MAX_def)
  have n: "next_fd srv_woken = 4"
    by (simp add: srv_woken_def run_defs)
  from C1_accept_confirms_with_peer_name[OF e wake h] n wake ok show ?thesis
    by (auto simp: MQ_MSG_PRIO_def)
qed

text \<open>In that run \<^verbatim>\<open>_mq_accept\<close> returns 0 and the confirmation sent is
  \<^verbatim>\<open>/IPC_CLIENT.7\<close>, while the server's own read-queue name is \<^verbatim>\<open>/IPC_SERVER\<close>.\<close>
theorem C1_counterexample:
  "mq_accept srv1 (Some 100) = Some (0, srv2)
   \<and> new_calls srv1 srv2 = [C_sem_wait 10, C_mq_notify 3 On_recv 10 0, C_mq_receive 3 1024 13,
        C_sem_post 10, C_mq_open ''/IPC_CLIENT.7'' [O_WRONLY] 4,
        C_mq_send 4 ''/IPC_CLIENT.7'' 10 0]
   \<and> ctxs srv2 10 = Some srv2_ctx
   \<and> c_str (mq_rd_name srv2_ctx) = Some ''/IPC_SERVER''
   \<and> c_str (mq_wr_name srv2_ctx) = Some ''/IPC_CLIENT.7''
   \<and> ''/IPC_CLIENT.7'' \<noteq> ''/IPC_SERVER''"
proof -
  have "mq_accept srv1 (Some 100) = Some (0, srv2)"
    by (simp add: run_defs env_defs src_defs)
  moreover have "new_calls srv1 srv2 = [C_sem_wait 10, C_mq_notify 3 On_recv 10 0,
        C_mq_receive 3 1024 13, C_sem_post 10, C_mq_open ''/IPC_CLIENT.7'' [O_WRONLY] 4,
        C_mq_send 4 ''/IPC_CLIENT.7'' 10 0]"
    by (simp add: run_defs)
  moreover have "ctxs srv2 10 = Some srv2_ctx"
    by (simp add: run_defs srv2_ctx_def)
  moreover have "c_str (mq_rd_name srv2_ctx) = Some ''/IPC_SERVER''"
      "c_str (mq_wr_name srv2_ctx) = Some ''/IPC_CLIENT.7''"
    by (simp_all add: srv2_ctx_def c_str_def)
  ultimately show ?thesis by simp
qed

subsection \<open>The handshake wait of the client\<close>

lemma first_received_0: "first_received ok 0 es = None"
proof (cases es)
  case Nil then show ?thesis by simp
next
  case (Cons e es') then show ?thesis by (cases e) auto
qed

lemma first_received_Elapse:
  "first_received ok t (Elapse d # es) = first_received ok (t - d) es"
  by (simp add: first_received_0)

lemma harmless_cong:
  assumes "mq_names w1 = mq_names w"
    and "\<And>q'. q' \<noteq> qr \<Longrightarrow> map_option q_notify (mq_objs w1 q') = map_option q_notify (mq_objs w q')"
  shows "harmless w1 qr e = harmless w qr e"
proof (cases e)
  case (Elapse d) then show ?thesis by simp
next
  case (Arrive n m)
  show ?thesis
  proof (cases "mq_names w n")
    case None with Arrive assms(1) show ?thesis by simp
  next
    case (Some q')
    show ?thesis
    proof (cases "q' = qr")
      case True with Arrive Some assms(1) show ?thesis by simp
    next
      case False
      from assms(2)[OF False] Arrive Some assms(1) False show ?thesis
        by (cases "mq_objs w1 q'"; cases "mq_objs w q'") auto
    qed
  qed
qed

lemma no_faults_tl: "True \<notin> set fs \<Longrightarrow> \<not> fault_next fs \<and> True \<notin> set (tl fs)"
  by (cases fs) (auto simp: fault_next_def)

text \<open>An event that puts no message on the queue \<open>qr\<close>.\<close>
lemma step_other:
  assumes W: "waiting w p c i qr qro fl M b L cb"
    and h: "harmless w qr e"
    and na: "\<And>n m. e = Arrive n m \<Longrightarrow> \<not> arrives_on w qr n m"
  shows "\<exists>w1. env_step w e = Some w1 \<and> waiting w1 p c i qr qro fl M b L cb \<and> trace w1 = trace w
     \<and> clock w1 = clock w + (case e of Elapse d \<Rightarrow> d | Arrive n m \<Rightarrow> 0)
     \<and> (\<forall>e'. harmless w1 qr e' = harmless w qr e') \<and> arrives_on w1 qr = arrives_on w qr"
proof (cases e)
  case (Elapse d)
  have "harmless (w\<lparr>clock := clock w + d\<rparr>) qr e' = harmless w qr e'" for e'
    by (rule harmless_cong) simp_all
  moreover have "arrives_on (w\<lparr>clock := clock w + d\<rparr>) qr = arrives_on w qr"
    by (simp add: arrives_on_def fun_eq_iff)
  ultimately show ?thesis using W Elapse by (simp add: waiting_def)
next
  case (Arrive n m)
  have same: "\<forall>e'. harmless w qr e' = harmless w qr e'" by simp
  show ?thesis
  proof (cases "mq_names w n")
    case None
    with Arrive W show ?thesis by simp
  next
    case (Some q')
    show ?thesis
    proof (cases "q' = qr")
      case True
      with na[OF Arrive] Some W Arrive show ?thesis
        by (auto simp: arrives_on_def waiting_def)
    next
      case False
      show ?thesis
      proof (cases "mq_objs w q'")
        case None
        with Arrive Some W show ?thesis by simp
      next
        case (Some qo')
        from h Arrive \<open>mq_names w n = Some q'\<close> False Some have nn: "q_notify qo' = None" by simp
        show ?thesis
        proof (cases "q_msgsize qo' < length m \<or> q_maxmsg qo' \<le> length (q_msgs qo')")
          case True
          with Arrive \<open>mq_names w n = Some q'\<close> Some W show ?thesis by simp
        next
          case fits: False
          define w1 where "w1 = w\<lparr>mq_objs := (mq_objs w)(q' \<mapsto> qo'\<lparr>q_msgs := q_msgs qo' @ [m]\<rparr>)\<rparr>"
          have es: "env_step w e = Some w1"
            using Arrive \<open>mq_names w n = Some q'\<close> Some fits nn
            by (auto simp: mq_arrive_def w1_def)
          have hc: "harmless w1 qr e' = harmless w qr e'" for e'
            by (rule harmless_cong) (auto simp: w1_def Some nn)
          have ao: "arrives_on w1 qr = arrives_on w qr"
            using False by (simp add: arrives_on_def fun_eq_iff w1_def)
          have "waiting w1 p c i qr qro fl M b L cb"
            using W False by (simp add: waiting_def w1_def)
          with es hc ao Arrive show ?thesis by (simp add: w1_def)
        qed
      qed
    qed
  qed
qed

lemma mqueue_swap: "qo\<lparr>q_notify := a, q_msgs := ms\<rparr> = qo\<lparr>q_msgs := ms, q_notify := a\<rparr>"
  by (cases qo) simp

lemma waiting_parts:
  assumes "waiting w p c i qr qro fl M b L cb"
  obtains s old where "ctxs w p = Some c" "ipcs w i = Some s" "ctx s = Some p"
    "mq_fds w (mq_rd c) = Some (qr, fl)"
    "mq_objs w qr = Some (qro\<lparr>q_msgs := [], q_notify := Some (mq_rd c, cb, p)\<rparr>)"
    "MAX_IPC_MESSAGE_SIZE w = M" "mq_recv_buf w = Some b" "bufs w b = Some old" "length old = L"
    "\<not> fault_next (faults w)" "True \<notin> set (tl (faults w))"
  using assms no_faults_tl[of "faults w"] by (auto simp: waiting_def)

text \<open>A message arrives on \<open>qr\<close> in the data phase: \<^verbatim>\<open>on_recv\<close> takes it.\<close>
lemma step_recv:
  assumes W: "waiting w p c i qr qro fl M b L On_recv"
    and st: "parent c = Some i" "O_RDWR \<in> set fl" "q_msgsize qro \<le> M" "q_msgsize qro \<le> L"
    and a: "arrives_on w qr n m"
  shows "\<exists>w1 xs. env_step w (Arrive n m) = Some w1 \<and> waiting w1 p c i qr qro fl M b L On_recv
     \<and> trace w1 = trace w @ xs \<and> filter on_gate xs = [] \<and> clock w1 = clock w
     \<and> (\<forall>e'. harmless w1 qr e' = harmless w qr e')"
proof -
  from W obtain s old where p: "ctxs w p = Some c" "ipcs w i = Some s" "ctx s = Some p"
    "mq_fds w (mq_rd c) = Some (qr, fl)"
    "mq_objs w qr = Some (qro\<lparr>q_msgs := [], q_notify := Some (mq_rd c, On_recv, p)\<rparr>)"
    "MAX_IPC_MESSAGE_SIZE w = M" "mq_recv_buf w = Some b" "bufs w b = Some old" "length old = L"
    "\<not> fault_next (faults w)" "True \<notin> set (tl (faults w))"
    by (rule waiting_parts)
  from a p(5) have n: "mq_names w n = Some qr" and fit: "length m \<le> q_msgsize qro" "0 < q_maxmsg qro"
    by (auto simp: arrives_on_def)
  have lm: "length m \<le> length old" using fit(1) st(4) p(9) by simp
  define w1 where "w1 = the (env_step w (Arrive n m))"
  have r: "env_step w (Arrive n m) = Some w1 \<and> ctxs w1 = ctxs w \<and> ipcs w1 = ipcs w
     \<and> mq_fds w1 = mq_fds w \<and> mq_names w1 = mq_names w
     \<and> mq_objs w1 = (mq_objs w)(qr \<mapsto> qro\<lparr>q_notify := Some (mq_rd c, On_recv, p), q_msgs := []\<rparr>)
     \<and> MAX_IPC_MESSAGE_SIZE w1 = M \<and> mq_recv_buf w1 = Some b
     \<and> bufs w1 = (bufs w)(b \<mapsto> m @ drop (length m) old)
     \<and> faults w1 = tl (faults w) \<and> clock w1 = clock w
     \<and> trace w1 = trace w @ [C_mq_notify (mq_rd c) On_recv p 0,
          C_mq_receive (mq_rd c) M (int (length m))]
          @ (case mq_recv_cb w of None \<Rightarrow> []
             | Some f \<Rightarrow> [C_recv_cb f (Some i) (Some b) m (int (length m))])"
    unfolding w1_def
    using p n fit lm st
    by (simp add: mq_arrive_def fire_def on_recv_def mq_notify_update_def posix_mq_notify_def
        next_fault_eq mq_recv_def ipc_ctx_def posix_mq_receive_def write_buf_def record_call_def
        Let_def split: option.splits)
  have hc: "harmless w1 qr e' = harmless w qr e'" for e'
    by (rule harmless_cong) (simp_all add: r)
  have "waiting w1 p c i qr qro fl M b L On_recv"
    using r[unfolded mqueue_swap] p lm by (simp add: waiting_def)
  moreover have "filter on_gate ([C_mq_notify (mq_rd c) On_recv p 0,
          C_mq_receive (mq_rd c) M (int (length m))]
          @ (case mq_recv_cb w of None \<Rightarrow> []
             | Some f \<Rightarrow> [C_recv_cb f (Some i) (Some b) m (int (length m))])) = []"
    by (simp split: option.splits)
  ultimately show ?thesis using r hc by blast
qed

text \<open>The first message arrives on \<open>qr\<close> in the handshake: \<^verbatim>\<open>on_connect\<close> checks it.\<close>
lemma step_connect:
  assumes W: "waiting w p c i qr qro fl M b L On_connect"
    and st: "parent c = Some i" "O_RDWR \<in> set fl" "q_msgsize qro \<le> M" "q_msgsize qro \<le> L"
    and cl: "role c = IPC_CLIENT" "c_str (mq_rd_name c) = Some nm" "length nm < M"
    and a: "arrives_on w qr n m"
  shows "\<exists>w1 xs. env_step w (Arrive n m) = Some w1
     \<and> trace w1 = trace w @ xs \<and> clock w1 = clock w
     \<and> (\<forall>e'. harmless w1 qr e' = harmless w qr e')
     \<and> (if confirms nm m
        then ctxs w1 p = Some (c\<lparr>sem := sem c + 1\<rparr>) \<and> filter on_gate xs = [C_sem_post p]
        else waiting w1 p c i qr qro fl M b L On_recv \<and> filter on_gate xs = [])"
proof -
  from W obtain s old where p: "ctxs w p = Some c" "ipcs w i = Some s" "ctx s = Some p"
    "mq_fds w (mq_rd c) = Some (qr, fl)"
    "mq_objs w qr = Some (qro\<lparr>q_msgs := [], q_notify := Some (mq_rd c, On_connect, p)\<rparr>)"
    "MAX_IPC_MESSAGE_SIZE w = M" "mq_recv_buf w = Some b" "bufs w b = Some old" "length old = L"
    "\<not> fault_next (faults w)" "True \<notin> set (tl (faults w))"
    by (rule waiting_parts)
  from a p(5) have n: "mq_names w n = Some qr" and fit: "length m \<le> q_msgsize qro" "0 < q_maxmsg qro"
    by (auto simp: arrives_on_def)
  let ?buf = "m @ replicate (M - length m) NUL"
  have "length nm < length ?buf" using cl(3) by simp
  from strcmp_c_str[OF cl(2) this] obtain v where
    v: "strcmp ?buf (mq_rd_name c) = Some v" "v = 0 \<longleftrightarrow> takeWhile (\<lambda>c. c \<noteq> NUL) m = nm"
    by (auto simp: takeWhile_pad)
  define w1 where "w1 = the (env_step w (Arrive n m))"
  define xs where "xs = [C_mq_notify (mq_rd c) On_recv p 0,
          C_mq_receive (mq_rd c) M (int (length m)),
          if m = [] then C_printf ''_mq_recv failed!''
          else if confirms nm m then C_sem_post p
          else C_printf ''connect response check failed!'']"
  have r: "env_step w (Arrive n m) = Some w1 \<and> ipcs w1 = ipcs w
     \<and> ctxs w1 = (if confirms nm m then (ctxs w)(p \<mapsto> c\<lparr>sem := sem c + 1\<rparr>) else ctxs w)
     \<and> mq_fds w1 = mq_fds w \<and> mq_names w1 = mq_names w
     \<and> mq_objs w1 = (mq_objs w)(qr \<mapsto> qro\<lparr>q_notify := Some (mq_rd c, On_recv, p), q_msgs := []\<rparr>)
     \<and> MAX_IPC_MESSAGE_SIZE w1 = M \<and> mq_recv_buf w1 = Some b
     \<and> bufs w1 = bufs w
     \<and> faults w1 = tl (faults w) \<and> clock w1 = clock w
     \<and> trace w1 = trace w @ xs"
    unfolding w1_def xs_def
    using p n fit st cl(1) v
    by (simp add: mq_arrive_def fire_def on_connect_def mq_notify_update_def posix_mq_notify_def
        next_fault_eq mq_recv_def ipc_ctx_def posix_mq_receive_def posix_sem_post_def printf_def
        record_call_def confirms_def Let_def split: option.splits)
  have hc: "harmless w1 qr e' = harmless w qr e'" for e'
    by (rule harmless_cong) (simp_all add: r)
  show ?thesis
  proof (cases "confirms nm m")
    case True
    then have "filter on_gate xs = [C_sem_post p]" by (simp add: xs_def confirms_def)
    with r hc True p(1) show ?thesis by auto
  next
    case False
    then have "filter on_gate xs = []" by (simp add: xs_def)
    moreover have "waiting w1 p c i qr qro fl M b L On_recv"
      using r[unfolded mqueue_swap] p False by (simp add: waiting_def)
    ultimately show ?thesis using r hc False by auto
  qed
qed

lemma deadline_props:
  assumes "ts_ns ts = int D * 1000"
  shows "reached w ts \<longleftrightarrow> D \<le> clock w" and "ts_us_up ts = D"
  using assms by (simp_all add: reached_def ts_us_up_def)

lemma timedwait_posted:
  "ctxs w p = Some c \<Longrightarrow> 0 < sem c \<Longrightarrow>
   \<exists>w'. timedwait_loop es w p ts = Some (0, w') \<and> trace w' = trace w"
  by (cases es) (simp_all add: ctx_upd_def)

lemma timedwait_step:
  assumes "ctxs w p = Some c" "sem c = 0" "ts_valid ts" "\<not> reached w ts" "env_step w e = Some w1"
  shows "timedwait_loop (e # es) w p ts = timedwait_loop es w1 p ts"
  using assms by simp

lemma timedwait_end:
  assumes "ctxs w p = Some c" "sem c = 0" "ts_valid ts" "ts_ns ts = int D * 1000"
    and "es = [] \<or> D \<le> clock w"
  shows "\<exists>w'. timedwait_loop es w p ts = Some (- 1, w') \<and> errno w' = Some ETIMEDOUT
     \<and> D \<le> clock w' \<and> trace w' = trace w"
  using assms deadline_props[OF assms(4)]
  by (cases es) auto

text \<open>The wait in the data phase: whatever arrives, the gate is not signalled.\<close>
lemma wait_data_phase:
  assumes st: "sem c = 0" "parent c = Some i" "O_RDWR \<in> set fl" "q_msgsize qro \<le> M"
      "q_msgsize qro \<le> L"
    and ts: "ts_valid ts" "ts_ns ts = int D * 1000"
  shows "waiting w p c i qr qro fl M b L On_recv \<Longrightarrow> list_all (harmless w qr) es \<Longrightarrow>
     \<exists>w' xs. timedwait_loop es w p ts = Some (- 1, w') \<and> errno w' = Some ETIMEDOUT
       \<and> D \<le> clock w' \<and> trace w' = trace w @ xs \<and> filter on_gate xs = []"
proof (induction es arbitrary: w)
  case Nil
  from Nil(1) have c: "ctxs w p = Some c" by (simp add: waiting_def)
  from timedwait_end[OF c st(1) ts disjI1[OF refl]] obtain w' where
    r: "timedwait_loop [] w p ts = Some (- 1, w')" "errno w' = Some ETIMEDOUT" "D \<le> clock w'"
      "trace w' = trace w" by blast
  have "trace w' = trace w @ []" using r(4) by simp
  moreover have "filter on_gate [] = []" by simp
  ultimately show ?case using r(1,2,3) by blast
next
  case (Cons e es)
  from Cons.prems(1) have c: "ctxs w p = Some c" by (simp add: waiting_def)
  from Cons.prems(2) have h: "harmless w qr e" and hs: "list_all (harmless w qr) es" by simp_all
  show ?case
  proof (cases "D \<le> clock w")
    case True
    from timedwait_end[OF c st(1) ts disjI2[OF True]] obtain w' where
      r: "timedwait_loop (e # es) w p ts = Some (- 1, w')" "errno w' = Some ETIMEDOUT"
        "D \<le> clock w'" "trace w' = trace w" by blast
    have "trace w' = trace w @ []" using r(4) by simp
    moreover have "filter on_gate [] = []" by simp
    ultimately show ?thesis using r(1,2,3) by blast
  next
    case False
    then have nr: "\<not> reached w ts" by (simp add: deadline_props[OF ts(2)])
    have "\<exists>w1 xs1. env_step w e = Some w1 \<and> waiting w1 p c i qr qro fl M b L On_recv
        \<and> trace w1 = trace w @ xs1 \<and> filter on_gate xs1 = []
        \<and> (\<forall>e'. harmless w1 qr e' = harmless w qr e')"
    proof (cases "\<exists>n m. e = Arrive n m \<and> arrives_on w qr n m")
      case True
      then obtain n m where e: "e = Arrive n m" and a: "arrives_on w qr n m" by blast
      from step_recv[OF Cons.prems(1) st(2,3,4,5) a] e show ?thesis by blast
    next
      case False
      then have "\<And>n m. e = Arrive n m \<Longrightarrow> \<not> arrives_on w qr n m" by blast
      from step_other[OF Cons.prems(1) h this] obtain w1 where
        s: "env_step w e = Some w1" "waiting w1 p c i qr qro fl M b L On_recv"
          "trace w1 = trace w" "\<forall>e'. harmless w1 qr e' = harmless w qr e'"
        by blast
      have "trace w1 = trace w @ []" using s(3) by simp
      moreover have "filter on_gate [] = []" by simp
      ultimately show ?thesis using s(1,2,4) by blast
    qed
    then obtain w1 xs1 where s: "env_step w e = Some w1"
        "waiting w1 p c i qr qro fl M b L On_recv" "trace w1 = trace w @ xs1"
        "filter on_gate xs1 = []" "\<And>e'. harmless w1 qr e' = harmless w qr e'"
      by blast
    from hs s(5) have "list_all (harmless w1 qr) es" by (simp add: list_all_iff)
    from Cons.IH[OF s(2) this] obtain w' xs where
      r: "timedwait_loop es w1 p ts = Some (- 1, w')" "errno w' = Some ETIMEDOUT"
        "D \<le> clock w'" "trace w' = trace w1 @ xs" "filter on_gate xs = []"
      by blast
    have "timedwait_loop (e # es) w p ts = Some (- 1, w')"
      using timedwait_step[OF c st(1) ts(1) nr s(1)] r(1) by simp
    moreover have "trace w' = trace w @ (xs1 @ xs)" using r(4) s(3) by simp
    moreover have "filter on_gate (xs1 @ xs) = []" using r(5) s(4) by simp
    ultimately show ?thesis using r(2,3) by blast
  qed
qed

text \<open>The wait in the handshake: the first message received decides.\<close>
lemma wait_handshake:
  assumes st: "sem c = 0" "parent c = Some i" "O_RDWR \<in> set fl" "q_msgsize qro \<le> M"
      "q_msgsize qro \<le> L"
    and cl: "role c = IPC_CLIENT" "c_str (mq_rd_name c) = Some nm" "length nm < M"
    and ts: "ts_valid ts" "ts_ns ts = int D * 1000"
  shows "waiting w p c i qr qro fl M b L On_connect \<Longrightarrow> list_all (harmless w qr) es \<Longrightarrow>
     \<exists>r w' xs. timedwait_loop es w p ts = Some (r, w') \<and> trace w' = trace w @ xs
       \<and> wait_outcome p nm D (first_received (arrives_on w qr) (D - clock w) es) r w' xs"
proof (induction es arbitrary: w)
  case Nil
  from Nil(1) have c: "ctxs w p = Some c" by (simp add: waiting_def)
  from timedwait_end[OF c st(1) ts disjI1[OF refl]] obtain w' where
    r: "timedwait_loop [] w p ts = Some (- 1, w')" "errno w' = Some ETIMEDOUT" "D \<le> clock w'"
      "trace w' = trace w" by blast
  have "trace w' = trace w @ []" using r(4) by simp
  moreover have "wait_outcome p nm D (first_received (arrives_on w qr) (D - clock w) []) (- 1) w' []"
    using r(2,3) by (simp add: wait_outcome_def)
  ultimately show ?case using r(1) by blast
next
  case (Cons e es)
  from Cons.prems(1) have c: "ctxs w p = Some c" by (simp add: waiting_def)
  from Cons.prems(2) have h: "harmless w qr e" and hs: "list_all (harmless w qr) es" by simp_all
  show ?case
  proof (cases "D \<le> clock w")
    case True
    then have "first_received (arrives_on w qr) (D - clock w) (e # es) = None"
      by (simp add: first_received_0)
    then have fr: "wait_outcome p nm D (first_received (arrives_on w qr) (D - clock w) (e # es)) r w' xs
        = wait_outcome p nm D None r w' xs" for r w' xs
      by simp
    from timedwait_end[OF c st(1) ts disjI2[OF True]] obtain w' where
      r: "timedwait_loop (e # es) w p ts = Some (- 1, w')" "errno w' = Some ETIMEDOUT"
        "D \<le> clock w'" "trace w' = trace w" by blast
    have "trace w' = trace w @ []" using r(4) by simp
    moreover have "wait_outcome p nm D None (- 1) w' []"
      using r(2,3) by (simp add: wait_outcome_def)
    ultimately show ?thesis using r(1) fr by blast
  next
    case False
    then have nr: "\<not> reached w ts" by (simp add: deadline_props[OF ts(2)])
    show ?thesis
    proof (cases "\<exists>n m. e = Arrive n m \<and> arrives_on w qr n m")
      case True
      then obtain n m where e: "e = Arrive n m" and a: "arrives_on w qr n m" by blast
      have fr: "first_received (arrives_on w qr) (D - clock w) (e # es) = Some m"
        using e a False by simp
      from step_connect[OF Cons.prems(1) st(2,3,4,5) cl a] obtain w1 xs1 where
        s: "env_step w (Arrive n m) = Some w1" "trace w1 = trace w @ xs1"
          "\<And>e'. harmless w1 qr e' = harmless w qr e'"
          "if confirms nm m
           then ctxs w1 p = Some (c\<lparr>sem := sem c + 1\<rparr>) \<and> filter on_gate xs1 = [C_sem_post p]
           else waiting w1 p c i qr qro fl M b L On_recv \<and> filter on_gate xs1 = []"
        by blast
      have step: "timedwait_loop (e # es) w p ts = timedwait_loop es w1 p ts"
        using timedwait_step[OF c st(1) ts(1) nr] s(1) e by simp
      show ?thesis
      proof (cases "confirms nm m")
        case True
        with s(4) have c1: "ctxs w1 p = Some (c\<lparr>sem := sem c + 1\<rparr>)"
          and sp: "filter on_gate xs1 = [C_sem_post p]" by simp_all
        have "0 < sem (c\<lparr>sem := sem c + 1\<rparr>)" by simp
        from timedwait_posted[OF c1 this, of es ts] have
          "\<exists>w'. timedwait_loop es w1 p ts = Some (0, w') \<and> trace w' = trace w1" .
        then obtain w' where r: "timedwait_loop es w1 p ts = Some (0, w')" "trace w' = trace w1"
          by blast
        have "timedwait_loop (e # es) w p ts = Some (0, w')" using step r(1) by simp
        moreover have "trace w' = trace w @ xs1" using r(2) s(2) by simp
        moreover have "wait_outcome p nm D (first_received (arrives_on w qr) (D - clock w) (e # es)) 0 w' xs1"
          using sp True by (simp only: fr) (simp add: wait_outcome_def)
        ultimately show ?thesis by blast
      next
        case False
        with s(4) have w1: "waiting w1 p c i qr qro fl M b L On_recv"
          and np: "filter on_gate xs1 = []" by simp_all
        from hs s(3) have "list_all (harmless w1 qr) es" by (simp add: list_all_iff)
        from wait_data_phase[OF st ts w1 this] obtain w' xs where
          r: "timedwait_loop es w1 p ts = Some (- 1, w')" "errno w' = Some ETIMEDOUT"
            "D \<le> clock w'" "trace w' = trace w1 @ xs" "filter on_gate xs = []"
          by blast
        have "trace w' = trace w @ (xs1 @ xs)" using r(4) s(2) by simp
        moreover have "filter on_gate (xs1 @ xs) = []" using r(5) np by simp
        then have "wait_outcome p nm D (first_received (arrives_on w qr) (D - clock w) (e # es))
            (- 1) w' (xs1 @ xs)"
          using r(2,3) False by (simp only: fr) (simp add: wait_outcome_def)
        moreover have "timedwait_loop (e # es) w p ts = Some (- 1, w')" using step r(1) by simp
        ultimately show ?thesis by blast
      qed
    next
      case na: False
      then have na': "\<And>n m. e = Arrive n m \<Longrightarrow> \<not> arrives_on w qr n m" by blast
      from step_other[OF Cons.prems(1) h na'] obtain w1 where
        s: "env_step w e = Some w1" "waiting w1 p c i qr qro fl M b L On_connect"
          "trace w1 = trace w"
          "clock w1 = clock w + (case e of Elapse d \<Rightarrow> d | Arrive n m \<Rightarrow> 0)"
          "\<And>e'. harmless w1 qr e' = harmless w qr e'" "arrives_on w1 qr = arrives_on w qr"
        by blast
      from hs s(5) have "list_all (harmless w1 qr) es" by (simp add: list_all_iff)
      from Cons.IH[OF s(2) this] obtain r w' xs where
        r: "timedwait_loop es w1 p ts = Some (r, w')" "trace w' = trace w1 @ xs"
          "wait_outcome p nm D (first_received (arrives_on w1 qr) (D - clock w1) es) r w' xs"
        by blast
      have "first_received (arrives_on w qr) (D - clock w) (e # es)
          = first_received (arrives_on w1 qr) (D - clock w1) es"
      proof (cases e)
        case (Elapse d)
        then show ?thesis using s(4,6) by (simp only: first_received_Elapse) simp
      next
        case (Arrive n m)
        then show ?thesis using s(4,6) na' False by simp
      qed
      then have "wait_outcome p nm D (first_received (arrives_on w qr) (D - clock w) (e # es)) r w' xs"
        using r(3) by (simp only:)
      moreover have "timedwait_loop (e # es) w p ts = Some (r, w')"
        using timedwait_step[OF c st(1) ts(1) nr s(1)] r(1) by simp
      moreover have "trace w' = trace w @ xs" using r(2) s(3) by simp
      ultimately show ?thesis by blast
    qed
  qed
qed

subsection \<open>The deadline of the client's wait\<close>

lemma sint_of_nat64: "n < 2 ^ 63 \<Longrightarrow> sint (word_of_nat n :: 64 word) = int n"
proof -
  assume n: "n < 2 ^ 63"
  then have "int n < 2 ^ 63" by (metis of_nat_less_iff of_nat_numeral of_nat_power)
  have "(word_of_nat n :: 64 word) = word_of_int (int n)" by simp
  then have "sint (word_of_nat n :: 64 word) = signed_take_bit 63 (int n)"
    by (simp only: sint_sbintrunc') simp
  also have "\<dots> = int n"
    using \<open>int n < 2 ^ 63\<close> by (intro signed_take_bit_int_eq_self) simp_all
  finally show ?thesis .
qed

text \<open>The time read by \<^verbatim>\<open>gettimeofday\<close> at clock value \<open>t\<close>.\<close>
lemma abs_time_of_clock:
  assumes "t div 1000000 + 5 < 2 ^ 63"
  shows "ts_ns (abs_time \<lparr>tv_sec = word_of_nat (t div 1000000),
             tv_usec = word_of_nat (t mod 1000000)\<rparr>) = (int t + 5000 * 1000) * 1000"
    and "ts_valid (abs_time \<lparr>tv_sec = word_of_nat (t div 1000000),
             tv_usec = word_of_nat (t mod 1000000)\<rparr>)"
proof -
  let ?s = "t div 1000000" and ?u = "t mod 1000000"
  have u: "?u < 1000000" by simp
  have su: "sint (word_of_nat ?u :: 64 word) = int ?u"
    by (rule sint_of_nat64) (rule less_trans[OF u], simp)
  have nocarry: "\<not> word_sle (1000000 :: 64 word) (word_of_nat ?u)"
    using su u by (simp add: word_sle_eq)
  have sec: "sint (word_of_nat ?s + 5 :: 64 word) = int ?s + 5"
  proof -
    have "(word_of_nat ?s + 5 :: 64 word) = word_of_nat (?s + 5)" by simp
    then show ?thesis using sint_of_nat64[OF assms] by simp
  qed
  have nsec: "sint (word_of_nat ?u * 1000 :: 64 word) = int ?u * 1000"
  proof -
    have "(word_of_nat ?u * 1000 :: 64 word) = word_of_nat (?u * 1000)" by simp
    moreover have "?u * 1000 < 2 ^ 63" using u by simp
    ultimately show ?thesis using sint_of_nat64[of "?u * 1000"] by simp
  qed
  have at: "abs_time \<lparr>tv_sec = word_of_nat ?s, tv_usec = word_of_nat ?u\<rparr>
      = \<lparr>ts_sec = word_of_nat ?s + 5, ts_nsec = word_of_nat ?u * 1000\<rparr>"
    using nocarry by (simp add: abs_time_def timeout_def Let_def)
  have "int t = int ?s * 1000000 + int ?u"
    by (metis mult.commute of_nat_add of_nat_mult of_nat_numeral div_mult_mod_eq)
  then show "ts_ns (abs_time \<lparr>tv_sec = word_of_nat ?s, tv_usec = word_of_nat ?u\<rparr>)
      = (int t + 5000 * 1000) * 1000"
    by (simp add: at ts_ns_def sec nsec)
  show "ts_valid (abs_time \<lparr>tv_sec = word_of_nat ?s, tv_usec = word_of_nat ?u\<rparr>)"
    using u by (simp add: at ts_valid_def nsec)
qed

text \<open>\<^verbatim>\<open>_mq_connect\<close> on a client endpoint as \<^verbatim>\<open>_mq_init\<close> leaves it, to a queue that exists
  and has room: the calls up to the timed wait, and the outcome of the wait.\<close>
lemma connect_core:
  assumes e: "ipc_ctx w ipc = Some (p, c)" "sem c = 0" "role c = IPC_CLIENT"
      "length (mq_rd_name c) = MAX_MQ_NAME" "c_str (mq_rd_name c) = Some nm"
    and own: "mq_fds w (mq_rd c) = Some (qr, fl)" "O_RDWR \<in> set fl" "mq_rd c < int (next_fd w)"
      "mq_objs w qr = Some qro" "q_msgs qro = []" "q_notify qro = Some (mq_rd c, On_connect, p)"
    and buf: "mq_recv_buf w = Some b" "bufs w b = Some old"
      "q_msgsize qro \<le> length old" "q_msgsize qro \<le> MAX_IPC_MESSAGE_SIZE w"
      "MAX_MQ_NAME \<le> MAX_IPC_MESSAGE_SIZE w"
    and srv: "mq_name_error name = None" "mq_names w name = Some q" "q \<noteq> qr"
      "mq_objs w q = Some qo" "length nm \<le> q_msgsize qo" "length (q_msgs qo) < q_maxmsg qo"
      "q_notify qo = None"
    and nf: "True \<notin> set (faults w)"
    and ev: "list_all (harmless w qr) (sched w)"
    and t: "clock w div 1000000 + 5 < 2 ^ 63"
  shows "\<exists>r w' xs. mq_connect w ipc name = Some (r, w')
     \<and> new_calls w w' = [C_mq_open name [O_WRONLY, O_EXCL] (int (next_fd w)),
          C_mq_send (int (next_fd w)) nm MQ_MSG_PRIO 0,
          C_gettimeofday \<lparr>tv_sec = word_of_nat (clock w div 1000000),
             tv_usec = word_of_nat (clock w mod 1000000)\<rparr>,
          C_sem_timedwait p (abs_time \<lparr>tv_sec = word_of_nat (clock w div 1000000),
             tv_usec = word_of_nat (clock w mod 1000000)\<rparr>)]
          @ xs @ (if r = - 1 then [C_printf ''connect %s failed %d: %s''] else [])
     \<and> wait_outcome p nm (clock w + 5000 * 1000)
          (first_received (arrives_on w qr) (5000 * 1000) (sched w)) r w' xs"
proof -
  let ?fd = "int (next_fd w)"
  let ?now = "\<lparr>tv_sec = word_of_nat (clock w div 1000000),
             tv_usec = word_of_nat (clock w mod 1000000)\<rparr>"
  let ?ts = "abs_time ?now"
  let ?D = "clock w + 5000 * 1000"
  let ?M = "MAX_IPC_MESSAGE_SIZE w"
  from e(1) obtain i s where i: "ipc = Some i" "ipcs w i = Some s" "ctx s = Some p"
      "ctxs w p = Some c"
    by (auto simp: ipc_ctx_def split: option.splits)
  note ct = c_str_take[OF e(5)]
  have len: "length nm < 2 ^ 31" "length nm < ?M"
    using c_str_shorter[OF e(5)] e(4) buf(5) by (simp_all add: MAX_MQ_NAME_def)
  have sl: "strlen (mq_rd_name c) = Some (length nm)"
    using e(5) by (simp add: strlen_def)
  note s32 = sint_of_nat32[OF len(1)]
  obtain arr where arr: "strncpy MAX_MQ_NAME (name @ [NUL]) = Some arr"
    by (simp add: strncpy_c_string)
  define c6 where "c6 = c\<lparr>parent := ipc, mq_wr := ?fd, mq_wr_name := arr\<rparr>"
  define w6 where "w6 = w\<lparr>faults := tl (faults w),
      mq_fds := (mq_fds w)(?fd \<mapsto> (q, [O_WRONLY, O_EXCL])), next_fd := next_fd w + 1,
      ctxs := (ctxs w)(p \<mapsto> c6),
      mq_objs := (mq_objs w)(q \<mapsto> qo\<lparr>q_msgs := q_msgs qo @ [nm]\<rparr>),
      trace := trace w @ [C_mq_open name [O_WRONLY, O_EXCL] ?fd,
          C_mq_send ?fd nm MQ_MSG_PRIO 0, C_gettimeofday ?now, C_sem_timedwait p ?ts]\<rparr>"
  note nf1 = no_faults_tl[OF nf]
  have mc: "mq_connect w ipc name =
          (case timedwait_loop (sched w) w6 p ?ts of None \<Rightarrow> None
           | Some (r, w7) \<Rightarrow> if r = - 1 then Some (- 1, printf ''connect %s failed %d: %s'' w7)
               else Some (0, w7))"
    using i e(2) srv sl ct s32 e(5) arr nf1
    by (simp add: mq_connect_def ipc_ctx_def ctx_upd_def posix_mq_open_def
        next_fault_eq new_fd_def record_call_def mq_send_def
        posix_mq_send_def mq_arrive_def posix_gettimeofday_def posix_sem_timedwait_def
        Let_def w6_def c6_def)
  have qro: "qro\<lparr>q_msgs := [], q_notify := Some (mq_rd c, On_connect, p)\<rparr> = qro"
    using own(5,6) by simp
  have W6: "waiting w6 p c6 i qr qro fl ?M b (length old) On_connect"
    using i own buf srv(3) nf1 qro by (simp add: waiting_def w6_def c6_def)
  have hc: "harmless w6 qr e' = harmless w qr e'" for e'
    by (rule harmless_cong) (auto simp: w6_def srv)
  have H6: "list_all (harmless w6 qr) (sched w)"
    using ev hc by (simp add: list_all_iff)
  have ao: "arrives_on w6 qr = arrives_on w qr"
    using srv(3) by (simp add: arrives_on_def fun_eq_iff w6_def)
  have st: "sem c6 = 0" "parent c6 = Some i" "O_RDWR \<in> set fl" "q_msgsize qro \<le> ?M"
      "q_msgsize qro \<le> length old"
    using e(2) i(1) own(2) buf by (simp_all add: c6_def)
  have cl: "role c6 = IPC_CLIENT" "c_str (mq_rd_name c6) = Some nm" "length nm < ?M"
    using e(3,5) len(2) by (simp_all add: c6_def)
  note at = abs_time_of_clock[OF t]
  have ts: "ts_valid ?ts" "ts_ns ?ts = int ?D * 1000"
    using at by simp_all
  have cw: "?D - clock w6 = 5000 * 1000" by (simp add: w6_def)
  from wait_handshake[OF st cl ts W6 H6] obtain r w7 xs where
    r: "timedwait_loop (sched w) w6 p ?ts = Some (r, w7)" "trace w7 = trace w6 @ xs"
      "wait_outcome p nm ?D (first_received (arrives_on w qr) (5000 * 1000) (sched w)) r w7 xs"
    unfolding ao cw by blast
  have tr6: "trace w6 = trace w @ [C_mq_open name [O_WRONLY, O_EXCL] ?fd,
          C_mq_send ?fd nm MQ_MSG_PRIO 0, C_gettimeofday ?now, C_sem_timedwait p ?ts]"
    by (simp add: w6_def)
  from r(3) have r01: "r = 0 \<or> r = - 1" by (auto simp: wait_outcome_def split: if_splits)
  define w' where "w' = (if r = - 1 then printf ''connect %s failed %d: %s'' w7 else w7)"
  have res: "mq_connect w ipc name = Some (r, w')"
    using mc r(1) r01 by (auto simp: w'_def)
  have nc: "new_calls w w' = [C_mq_open name [O_WRONLY, O_EXCL] ?fd,
          C_mq_send ?fd nm MQ_MSG_PRIO 0, C_gettimeofday ?now, C_sem_timedwait p ?ts]
          @ xs @ (if r = - 1 then [C_printf ''connect %s failed %d: %s''] else [])"
    using r(2) tr6 by (simp add: new_calls_def w'_def printf_def record_call_def)
  have "wait_outcome p nm ?D (first_received (arrives_on w qr) (5000 * 1000) (sched w)) r w' xs"
    using r(3) by (simp add: wait_outcome_def w'_def printf_def record_call_def)
  with res nc show ?thesis by blast
qed

text \<open>
  C5: \<^verbatim>\<open>_mq_connect\<close> on a client endpoint as \<^verbatim>\<open>_mq_init\<close> leaves it (gate at 0, read queue
  empty with \<^verbatim>\<open>on_connect\<close> registered, receive buffer allocated), to an existing queue
  that has room; no library call fails for lack of resources, and the events during the
  wait start no notification function of another endpoint. The schedule is arbitrary
  otherwise, but the client receives no valid confirmation: within 5000 ms either no
  message arrives on its read queue, or the first one that does is not accepted
  (\<open>confirms\<close>); whatever arrives after it, even the right name, goes to \<^verbatim>\<open>on_recv\<close>.
  Then \<^verbatim>\<open>_mq_connect\<close> opens the queue, sends the client's read-queue name, reads the
  clock (\<open>now\<close>) and calls \<^verbatim>\<open>sem_timedwait\<close> once, with the absolute time \<open>abs_time now\<close>,
  its only call on the gate. That deadline is the clock reading plus exactly 5000 ms: in
  nanoseconds \<open>(clock + 5000 * 1000) * 1000\<close> for the clock in microseconds, whatever its
  microsecond part, so the carry into the seconds is right. The wait ends with
  \<^verbatim>\<open>ETIMEDOUT\<close>, not before the deadline, and \<^verbatim>\<open>_mq_connect\<close> returns -1.
\<close>
theorem C5_connect_deadline:
  assumes e: "ipc_ctx w ipc = Some (p, c)" "sem c = 0" "role c = IPC_CLIENT"
      "length (mq_rd_name c) = MAX_MQ_NAME" "c_str (mq_rd_name c) = Some nm"
    and own: "mq_fds w (mq_rd c) = Some (qr, fl)" "O_RDWR \<in> set fl" "mq_rd c < int (next_fd w)"
      "mq_objs w qr = Some qro" "q_msgs qro = []" "q_notify qro = Some (mq_rd c, On_connect, p)"
    and buf: "mq_recv_buf w = Some b" "bufs w b = Some old"
      "q_msgsize qro \<le> length old" "q_msgsize qro \<le> MAX_IPC_MESSAGE_SIZE w"
      "MAX_MQ_NAME \<le> MAX_IPC_MESSAGE_SIZE w"
    and srv: "mq_name_error name = None" "mq_names w name = Some q" "q \<noteq> qr"
      "mq_objs w q = Some qo" "length nm \<le> q_msgsize qo" "length (q_msgs qo) < q_maxmsg qo"
      "q_notify qo = None"
    and nf: "True \<notin> set (faults w)"
    and ev: "list_all (harmless w qr) (sched w)"
    and t: "clock w div 1000000 + 5 < 2 ^ 63"
    and rx: "case first_received (arrives_on w qr) (5000 * 1000) (sched w) of
               None \<Rightarrow> True | Some m \<Rightarrow> \<not> confirms nm m"
  shows "\<exists>w' now. mq_connect w ipc name = Some (- 1, w')
     \<and> now = \<lparr>tv_sec = word_of_nat (clock w div 1000000), tv_usec = word_of_nat (clock w mod 1000000)\<rparr>
     \<and> take 4 (new_calls w w') = [C_mq_open name [O_WRONLY, O_EXCL] (int (next_fd w)),
          C_mq_send (int (next_fd w)) nm MQ_MSG_PRIO 0, C_gettimeofday now,
          C_sem_timedwait p (abs_time now)]
     \<and> filter on_gate (new_calls w w') = [C_sem_timedwait p (abs_time now)]
     \<and> ts_ns (abs_time now) = (int (clock w) + 5000 * 1000) * 1000
     \<and> errno w' = Some ETIMEDOUT
     \<and> clock w + 5000 * 1000 \<le> clock w'"
proof -
  from connect_core[OF e own buf srv nf ev t] obtain r w' xs where
    c: "mq_connect w ipc name = Some (r, w')"
      "new_calls w w' = [C_mq_open name [O_WRONLY, O_EXCL] (int (next_fd w)),
          C_mq_send (int (next_fd w)) nm MQ_MSG_PRIO 0,
          C_gettimeofday \<lparr>tv_sec = word_of_nat (clock w div 1000000),
             tv_usec = word_of_nat (clock w mod 1000000)\<rparr>,
          C_sem_timedwait p (abs_time \<lparr>tv_sec = word_of_nat (clock w div 1000000),
             tv_usec = word_of_nat (clock w mod 1000000)\<rparr>)]
          @ xs @ (if r = - 1 then [C_printf ''connect %s failed %d: %s''] else [])"
      "wait_outcome p nm (clock w + 5000 * 1000)
          (first_received (arrives_on w qr) (5000 * 1000) (sched w)) r w' xs"
    by blast
  from rx have nv: "\<not> (case first_received (arrives_on w qr) (5000 * 1000) (sched w) of
      None \<Rightarrow> False | Some m \<Rightarrow> confirms nm m)"
    by (simp split: option.splits)
  from c(3) nv have o: "r = - 1" "errno w' = Some ETIMEDOUT" "clock w + 5000 * 1000 \<le> clock w'"
      "filter on_gate xs = []"
    by (simp_all add: wait_outcome_def)
  note at = abs_time_of_clock[OF t]
  show ?thesis
    using c(1) o at(1) by (simp add: c(2))
qed

text \<open>The client of \<open>cli1\<close>, with any schedule, is such an endpoint.\<close>
lemma cli1_ready:
  assumes "w = cli1\<lparr>sched := es\<rparr>"
  shows "ipc_ctx w (Some 100) = Some (10, cli1_ctx)" "sem cli1_ctx = 0" "role cli1_ctx = IPC_CLIENT"
      "length (mq_rd_name cli1_ctx) = MAX_MQ_NAME" "c_str (mq_rd_name cli1_ctx) = Some ''/IPC_CLIENT.7''"
    and "mq_fds w (mq_rd cli1_ctx) = Some (21, [O_RDWR, O_EXCL, O_CREAT, O_NONBLOCK])"
      "O_RDWR \<in> set [O_RDWR, O_EXCL, O_CREAT, O_NONBLOCK]" "mq_rd cli1_ctx < int (next_fd w)"
      "mq_objs w 21 = Some (empty_queue (Some (mq_rd cli1_ctx, On_connect, 10)))"
      "q_msgs (empty_queue (Some (mq_rd cli1_ctx, On_connect, 10))) = []"
      "q_notify (empty_queue (Some (mq_rd cli1_ctx, On_connect, 10))) = Some (mq_rd cli1_ctx, On_connect, 10)"
    and "mq_recv_buf w = Some 11" "bufs w 11 = Some (replicate 1024 NUL)"
      "q_msgsize (empty_queue (Some (mq_rd cli1_ctx, On_connect, 10))) \<le> length (replicate 1024 NUL :: string)"
      "q_msgsize (empty_queue (Some (mq_rd cli1_ctx, On_connect, 10))) \<le> MAX_IPC_MESSAGE_SIZE w"
      "MAX_MQ_NAME \<le> MAX_IPC_MESSAGE_SIZE w"
    and "mq_name_error ''/IPC_SERVER'' = None" "mq_names w ''/IPC_SERVER'' = Some 20" "(20::nat) \<noteq> 21"
      "mq_objs w 20 = Some (empty_queue None)" "length ''/IPC_CLIENT.7'' \<le> q_msgsize (empty_queue None)"
      "length (q_msgs (empty_queue None)) < q_maxmsg (empty_queue None)"
      "q_notify (empty_queue None) = None"
    and "True \<notin> set (faults w)"
    and "clock w div 1000000 + 5 < 2 ^ 63"
  unfolding assms
  by (simp_all add: run_defs cli1_ctx_def empty_queue_def ipc_ctx_def c_str_def MAX_MQ_NAME_def
      mq_name_error_def NAME_MAX_def PATH_MAX_def)

text \<open>Only time passes (\<open>cli_wait\<close>), or a wrong confirmation arrives and then time passes
  (\<open>cli_late\<close>): the deadline is 5 s after the clock reading 1700000000.123456 s.\<close>
theorem C5_connect_deadline_witness:
  "(\<exists>w'. mq_connect cli_wait (Some 100) ''/IPC_SERVER'' = Some (- 1, w')
        \<and> take 4 (new_calls cli_wait w') = [C_mq_open ''/IPC_SERVER'' [O_WRONLY, O_EXCL] 4,
             C_mq_send 4 ''/IPC_CLIENT.7'' 10 0,
             C_gettimeofday \<lparr>tv_sec = 1700000000, tv_usec = 123456\<rparr>,
             C_sem_timedwait 10 \<lparr>ts_sec = 1700000005, ts_nsec = 123456000\<rparr>]
        \<and> errno w' = Some ETIMEDOUT \<and> clock cli_wait + 5000000 \<le> clock w')
   \<and> (\<exists>w'. mq_connect cli_late (Some 100) ''/IPC_SERVER'' = Some (- 1, w')
        \<and> filter on_gate (new_calls cli_late w')
            = [C_sem_timedwait 10 \<lparr>ts_sec = 1700000005, ts_nsec = 123456000\<rparr>]
        \<and> errno w' = Some ETIMEDOUT \<and> clock cli_late + 5000000 \<le> clock w')"
proof -
  note a = cli1_ready[OF cli_wait_def]
  have a1: "list_all (harmless cli_wait 21) (sched cli_wait)"
    and a2: "case first_received (arrives_on cli_wait 21) (5000 * 1000) (sched cli_wait) of
               None \<Rightarrow> True | Some m \<Rightarrow> \<not> confirms ''/IPC_CLIENT.7'' m"
    by (simp_all add: cli_wait_def run_defs arrives_on_def)
  note b = cli1_ready[OF cli_late_def]
  have b1: "list_all (harmless cli_late 21) (sched cli_late)"
    and b2: "case first_received (arrives_on cli_late 21) (5000 * 1000) (sched cli_late) of
               None \<Rightarrow> True | Some m \<Rightarrow> \<not> confirms ''/IPC_CLIENT.7'' m"
    by (simp_all add: cli_late_def run_defs arrives_on_def confirms_def)
  have t: "abs_time \<lparr>tv_sec = word_of_nat (clock cli_wait div 1000000),
             tv_usec = word_of_nat (clock cli_wait mod 1000000)\<rparr>
      = \<lparr>ts_sec = 1700000005, ts_nsec = 123456000\<rparr>"
    "abs_time \<lparr>tv_sec = word_of_nat (clock cli_late div 1000000),
             tv_usec = word_of_nat (clock cli_late mod 1000000)\<rparr>
      = \<lparr>ts_sec = 1700000005, ts_nsec = 123456000\<rparr>"
    "abs_time \<lparr>tv_sec = 1700000000, tv_usec = 123456\<rparr>
      = \<lparr>ts_sec = 1700000005, ts_nsec = 123456000\<rparr>"
    and n: "clock cli_wait = 1700000000123456" "next_fd cli_wait = 4"
    by (simp_all add: cli_wait_def cli_late_def run_defs abs_time_def timeout_def Let_def)
  from C5_connect_deadline[OF a(1-23) a(24) a1 a(25) a2]
       C5_connect_deadline[OF b(1-23) b(24) b1 b(25) b2]
  show ?thesis
    by (auto simp add: t n cli1_ctx_def MQ_MSG_PRIO_def)
qed

subsection \<open>The client's check of the confirmation, in \<^verbatim>\<open>_mq_connect\<close>\<close>

text \<open>
  C4, as the source has it: the same call, when a message \<open>m\<close> is the first to arrive on
  the client's read queue within the 5000 ms of the wait. It is the only message
  \<^verbatim>\<open>on_connect\<close> checks, since that function re-arms the notification with \<^verbatim>\<open>on_recv\<close>.
  The gate is signalled, once, and \<^verbatim>\<open>_mq_connect\<close> returns 0, if and only if \<open>m\<close> is
  accepted (\<open>confirms\<close>): it is not empty and, read as a C string (its bytes before the
  first NUL, all of them when there is none), it is the client's own read-queue name.
  Otherwise the gate is never signalled, whatever arrives later, be it the right name:
  the only call on the gate is the timed wait, which ends with \<^verbatim>\<open>ETIMEDOUT\<close> not before
  the deadline, and \<^verbatim>\<open>_mq_connect\<close> returns -1: the mismatch shows as a timeout alone.
\<close>
theorem C4_confirmation_check:
  assumes e: "ipc_ctx w ipc = Some (p, c)" "sem c = 0" "role c = IPC_CLIENT"
      "length (mq_rd_name c) = MAX_MQ_NAME" "c_str (mq_rd_name c) = Some nm"
    and own: "mq_fds w (mq_rd c) = Some (qr, fl)" "O_RDWR \<in> set fl" "mq_rd c < int (next_fd w)"
      "mq_objs w qr = Some qro" "q_msgs qro = []" "q_notify qro = Some (mq_rd c, On_connect, p)"
    and buf: "mq_recv_buf w = Some b" "bufs w b = Some old"
      "q_msgsize qro \<le> length old" "q_msgsize qro \<le> MAX_IPC_MESSAGE_SIZE w"
      "MAX_MQ_NAME \<le> MAX_IPC_MESSAGE_SIZE w"
    and srv: "mq_name_error name = None" "mq_names w name = Some q" "q \<noteq> qr"
      "mq_objs w q = Some qo" "length nm \<le> q_msgsize qo" "length (q_msgs qo) < q_maxmsg qo"
      "q_notify qo = None"
    and nf: "True \<notin> set (faults w)"
    and ev: "list_all (harmless w qr) (sched w)"
    and t: "clock w div 1000000 + 5 < 2 ^ 63"
    and rx: "first_received (arrives_on w qr) (5000 * 1000) (sched w) = Some m"
  shows "\<exists>w'. mq_connect w ipc name = Some (if confirms nm m then 0 else - 1, w')
     \<and> filter on_gate (new_calls w w') =
          C_sem_timedwait p (abs_time \<lparr>tv_sec = word_of_nat (clock w div 1000000),
             tv_usec = word_of_nat (clock w mod 1000000)\<rparr>)
          # (if confirms nm m then [C_sem_post p] else [])
     \<and> (\<not> confirms nm m \<longrightarrow> errno w' = Some ETIMEDOUT \<and> clock w + 5000 * 1000 \<le> clock w')"
proof -
  from connect_core[OF e own buf srv nf ev t] obtain r w' xs where
    c: "mq_connect w ipc name = Some (r, w')"
      "new_calls w w' = [C_mq_open name [O_WRONLY, O_EXCL] (int (next_fd w)),
          C_mq_send (int (next_fd w)) nm MQ_MSG_PRIO 0,
          C_gettimeofday \<lparr>tv_sec = word_of_nat (clock w div 1000000),
             tv_usec = word_of_nat (clock w mod 1000000)\<rparr>,
          C_sem_timedwait p (abs_time \<lparr>tv_sec = word_of_nat (clock w div 1000000),
             tv_usec = word_of_nat (clock w mod 1000000)\<rparr>)]
          @ xs @ (if r = - 1 then [C_printf ''connect %s failed %d: %s''] else [])"
      "wait_outcome p nm (clock w + 5000 * 1000)
          (first_received (arrives_on w qr) (5000 * 1000) (sched w)) r w' xs"
    by blast
  from c(3) have o: "if confirms nm m then r = 0 \<and> filter on_gate xs = [C_sem_post p]
      else r = - 1 \<and> errno w' = Some ETIMEDOUT \<and> clock w + 5000 * 1000 \<le> clock w'
        \<and> filter on_gate xs = []"
    using rx by (simp add: wait_outcome_def)
  show ?thesis
    using c(1) o by (auto simp add: c(2) split: if_splits)
qed

text \<open>The right confirmation arrives (\<open>cli_confirmed\<close>); a wrong one arrives, and the right
  one after it (\<open>cli_mismatch\<close>).\<close>
theorem C4_confirmation_check_witness:
  "(\<exists>w'. mq_connect cli_confirmed (Some 100) ''/IPC_SERVER'' = Some (0, w')
      \<and> filter on_gate (new_calls cli_confirmed w')
          = [C_sem_timedwait 10 \<lparr>ts_sec = 1700000005, ts_nsec = 123456000\<rparr>, C_sem_post 10])
   \<and> (\<exists>w'. mq_connect cli_mismatch (Some 100) ''/IPC_SERVER'' = Some (- 1, w')
      \<and> filter on_gate (new_calls cli_mismatch w')
          = [C_sem_timedwait 10 \<lparr>ts_sec = 1700000005, ts_nsec = 123456000\<rparr>]
      \<and> errno w' = Some ETIMEDOUT \<and> clock cli_mismatch + 5000000 \<le> clock w')"
proof -
  note a = cli1_ready[OF cli_confirmed_def]
  have a1: "list_all (harmless cli_confirmed 21) (sched cli_confirmed)"
    and a2: "first_received (arrives_on cli_confirmed 21) (5000 * 1000) (sched cli_confirmed)
      = Some ''/IPC_CLIENT.7''"
    by (simp_all add: cli_confirmed_def run_defs arrives_on_def)
  note b = cli1_ready[OF cli_mismatch_def]
  have b1: "list_all (harmless cli_mismatch 21) (sched cli_mismatch)"
    and b2: "first_received (arrives_on cli_mismatch 21) (5000 * 1000) (sched cli_mismatch)
      = Some ''/IPC_SERVER''"
    by (simp_all add: cli_mismatch_def run_defs arrives_on_def)
  have v: "confirms ''/IPC_CLIENT.7'' ''/IPC_CLIENT.7''" "\<not> confirms ''/IPC_CLIENT.7'' ''/IPC_SERVER''"
    by (simp_all add: confirms_def)
  have t: "abs_time \<lparr>tv_sec = word_of_nat (clock cli_confirmed div 1000000),
             tv_usec = word_of_nat (clock cli_confirmed mod 1000000)\<rparr>
      = \<lparr>ts_sec = 1700000005, ts_nsec = 123456000\<rparr>"
    "abs_time \<lparr>tv_sec = word_of_nat (clock cli_mismatch div 1000000),
             tv_usec = word_of_nat (clock cli_mismatch mod 1000000)\<rparr>
      = \<lparr>ts_sec = 1700000005, ts_nsec = 123456000\<rparr>"
    by (simp_all add: cli_confirmed_def cli_mismatch_def run_defs abs_time_def timeout_def Let_def)
  from C4_confirmation_check[OF a(1-23) a(24) a1 a(25) a2]
       C4_confirmation_check[OF b(1-23) b(24) b1 b(25) b2] v
  show ?thesis
    by (simp add: t cli1_ctx_def)
qed

text \<open>
  C4 as stated fails: a confirmation that continues after the name with a NUL and
  another byte is not the client's read-queue name, and the client signals the gate:
  \<^verbatim>\<open>_mq_connect\<close> returns 0.
\<close>
theorem C4_counterexample:
  "junk_confirmation \<noteq> ''/IPC_CLIENT.7''
   \<and> c_str (mq_rd_name cli_ctx) = Some ''/IPC_CLIENT.7''
   \<and> ctxs (cli_fire junk_confirmation) 10 = Some cli_ctx
   \<and> on_connect (cli_fire junk_confirmation) 10 \<noteq> None
   \<and> ctxs (the (on_connect (cli_fire junk_confirmation) 10)) 10 = Some (cli_ctx\<lparr>sem := 1\<rparr>)
   \<and> C_sem_post 10 \<in> set (new_calls (cli_fire junk_confirmation)
        (the (on_connect (cli_fire junk_confirmation) 10)))
   \<and> map_option fst (mq_connect (cli1\<lparr>sched := [Arrive ''/IPC_CLIENT.7'' junk_confirmation]\<rparr>)
        (Some 100) ''/IPC_SERVER'') = Some 0"
  by (simp add: run_defs cli_ctx_def env_defs src_defs strcmp_eval)

end
